theory Spec2Isabelle
  imports Main "HOL-Library.Char_ord" "HOL-Library.List_Lexorder" "HOL-Library.Sublist"
    "HOL-Library.Multiset"
begin

section \<open>Strings and errors\<close>

text \<open>
  Go strings are byte sequences; they are modelled as \<open>string\<close> (a list of 8-bit
  characters). Go's \<open>error\<close> values are modelled by one datatype: the sentinels the
  program declares or receives, opaque errors of the operating system and of the
  standard library, and \<open>fmt.Errorf\<close> with and without \<open>%w\<close>. \<open>None\<close> of type
  \<open>error option\<close> is Go's \<open>nil\<close> error.
\<close>

datatype error =
    ErrTooLong
  | ErrUserNotFound
  | ErrNoHomeDir
  | ErrSSHDirNotFound
  | ErrSSHDirNotDir
  | ContextCanceled
  | UnexpectedStatus int
  | OSError string
  | Errorf string
  | Wrapped string error

fun errors_Is :: "error \<Rightarrow> error \<Rightarrow> bool" where
  "errors_Is (Wrapped m e) target = (Wrapped m e = target \<or> errors_Is e target)"
| "errors_Is e target = (e = target)"

definition newline :: char where
  "newline = CHR 0x0A"

definition carriage_return :: char where
  "carriage_return = CHR 0x0D"

text \<open>
  \<open>unicode.IsSpace\<close>: the code points U+0009..U+000D, U+0020, U+0085, U+00A0, U+1680,
  U+2000..U+200A, U+2028, U+2029, U+202F, U+205F and U+3000, here in their UTF-8
  encodings. No encoding's first byte is a continuation byte, so a white-space rune
  starts at a position exactly when one of these byte sequences does.
\<close>

definition space_runes :: "string list" where
  "space_runes =
     [[CHR 0x09], [CHR 0x0A], [CHR 0x0B], [CHR 0x0C], [CHR 0x0D], [CHR 0x20],
      [CHR 0xC2, CHR 0x85], [CHR 0xC2, CHR 0xA0],
      [CHR 0xE1, CHR 0x9A, CHR 0x80],
      [CHR 0xE2, CHR 0x80, CHR 0x80], [CHR 0xE2, CHR 0x80, CHR 0x81],
      [CHR 0xE2, CHR 0x80, CHR 0x82], [CHR 0xE2, CHR 0x80, CHR 0x83],
      [CHR 0xE2, CHR 0x80, CHR 0x84], [CHR 0xE2, CHR 0x80, CHR 0x85],
      [CHR 0xE2, CHR 0x80, CHR 0x86], [CHR 0xE2, CHR 0x80, CHR 0x87],
      [CHR 0xE2, CHR 0x80, CHR 0x88], [CHR 0xE2, CHR 0x80, CHR 0x89],
      [CHR 0xE2, CHR 0x80, CHR 0x8A],
      [CHR 0xE2, CHR 0x80, CHR 0xA8], [CHR 0xE2, CHR 0x80, CHR 0xA9],
      [CHR 0xE2, CHR 0x80, CHR 0xAF],
      [CHR 0xE2, CHR 0x81, CHR 0x9F],
      [CHR 0xE3, CHR 0x80, CHR 0x80]]"

definition leading_space :: "string \<Rightarrow> nat" where
  "leading_space s =
     (case find (\<lambda>p. prefix p s) space_runes of None \<Rightarrow> 0 | Some p \<Rightarrow> length p)"

definition trailing_space :: "string \<Rightarrow> nat" where
  "trailing_space s =
     (case find (\<lambda>p. suffix p s) space_runes of None \<Rightarrow> 0 | Some p \<Rightarrow> length p)"

function TrimLeft :: "string \<Rightarrow> string" where
  "TrimLeft s =
     (if s = [] \<or> leading_space s = 0 then s else TrimLeft (drop (leading_space s) s))"
  by pat_completeness auto
termination
  by (relation "measure length") auto

function TrimRight :: "string \<Rightarrow> string" where
  "TrimRight s =
     (if s = [] \<or> trailing_space s = 0 then s
      else TrimRight (take (length s - trailing_space s) s))"
  by pat_completeness auto
termination
  by (relation "measure length") auto

declare TrimLeft.simps [simp del] TrimRight.simps [simp del]

text \<open>\<open>strings.TrimSpace\<close>: white-space runes are removed from the left, then from the right.\<close>

definition TrimSpace :: "string \<Rightarrow> string" where
  "TrimSpace s = TrimRight (TrimLeft s)"

text \<open>
  \<open>strings.Fields\<close>: the maximal runs of runes that are not white space. \<open>skip\<close> counts
  the bytes of a white-space rune that are still to be passed over, \<open>cur\<close> is the field
  being collected.
\<close>

fun fields_from :: "nat \<Rightarrow> string \<Rightarrow> string \<Rightarrow> string list" where
  "fields_from skip cur [] = (if cur = [] then [] else [cur])"
| "fields_from (Suc k) cur (c # s) = fields_from k cur s"
| "fields_from 0 cur (c # s) =
     (if leading_space (c # s) = 0 then fields_from 0 (cur @ [c]) s
      else (if cur = [] then [] else [cur]) @ fields_from (leading_space (c # s) - 1) [] s)"

definition Fields :: "string \<Rightarrow> string list" where
  "Fields s = fields_from 0 [] s"

definition HasPrefix :: "string \<Rightarrow> string \<Rightarrow> bool" where
  "HasPrefix s p = prefix p s"

section \<open>Package keyparser\<close>

record ParsedKey =
  pk_Line :: string
  pk_LineNumber :: nat

record ParseResult =
  pr_Keys :: "ParsedKey list"
  pr_DiscardedLines :: nat

text \<open>
  An \<open>io.Reader\<close>: the bytes it delivers and how it ends, with \<open>io.EOF\<close> (\<open>None\<close>) or
  with an error. \<open>strings.NewReader\<close> never fails.
\<close>

record reader =
  rd_data :: string
  rd_err :: "error option"

definition NewReader :: "string \<Rightarrow> reader" where
  "NewReader content = \<lparr>rd_data = content, rd_err = None\<rparr>"

text \<open>
  \<open>bufio.Scanner\<close> with the default split function \<open>ScanLines\<close>: the input is cut at
  every newline, a last line without a newline counts when it is not empty, and one
  trailing carriage return is dropped from each line. The scanner's buffer holds
  \<open>MaxScanTokenSize\<close> bytes and has to hold a line together with its newline, so the
  scanner stops with \<open>ErrTooLong\<close> at the first line of \<open>MaxScanTokenSize\<close> bytes or
  more; the lines before it have been delivered.
\<close>

definition MaxScanTokenSize :: nat where
  "MaxScanTokenSize = 64 * 1024"

fun lines_from :: "string \<Rightarrow> string \<Rightarrow> string list" where
  "lines_from cur [] = (if cur = [] then [] else [cur])"
| "lines_from cur (c # s) =
     (if c = newline then cur # lines_from [] s else lines_from (cur @ [c]) s)"

definition raw_lines :: "string \<Rightarrow> string list" where
  "raw_lines s = lines_from [] s"

definition dropCR :: "string \<Rightarrow> string" where
  "dropCR l = (if l \<noteq> [] \<and> last l = carriage_return then butlast l else l)"

definition too_long :: "string \<Rightarrow> bool" where
  "too_long l = (MaxScanTokenSize \<le> length l)"

definition scan :: "reader \<Rightarrow> string list \<times> error option" where
  "scan r =
     (let ls = raw_lines (rd_data r) in
      if list_ex too_long ls
      then (map dropCR (takeWhile (\<lambda>l. \<not> too_long l) ls), Some ErrTooLong)
      else (map dropCR ls, rd_err r))"

definition isValidKey :: "string \<Rightarrow> bool" where
  "isValidKey line =
     (if line = [] then False
      else if HasPrefix line ''#'' then False
      else if HasPrefix line ''<'' \<or> HasPrefix line ''{'' \<or> HasPrefix line ''['' then False
      else 2 \<le> length (Fields line))"

definition IsValidKey :: "string \<Rightarrow> bool" where
  "IsValidKey line = isValidKey (TrimSpace line)"

text \<open>The body of the scanning loop of \<open>Parse\<close>; \<open>lineNumber\<close> is the counter before the line.\<close>

fun parse_loop :: "nat \<Rightarrow> string list \<Rightarrow> ParseResult \<Rightarrow> ParseResult" where
  "parse_loop lineNumber [] result = result"
| "parse_loop lineNumber (text # rest) result =
     (let line = TrimSpace text in
      if isValidKey line
      then parse_loop (lineNumber + 1) rest
             (result\<lparr>pr_Keys := pr_Keys result @ [\<lparr>pk_Line = line, pk_LineNumber = lineNumber + 1\<rparr>]\<rparr>)
      else if line \<noteq> []
      then parse_loop (lineNumber + 1) rest
             (result\<lparr>pr_DiscardedLines := pr_DiscardedLines result + 1\<rparr>)
      else parse_loop (lineNumber + 1) rest result)"

definition Parse :: "reader \<Rightarrow> error + ParseResult" where
  "Parse r =
     (case scan r of
        (tokens, err) \<Rightarrow>
          (let result = parse_loop 0 tokens \<lparr>pr_Keys = [], pr_DiscardedLines = 0\<rparr> in
           case err of Some e \<Rightarrow> Inl e | None \<Rightarrow> Inr result))"

definition ParseString :: "string \<Rightarrow> error + ParseResult" where
  "ParseString content = Parse (NewReader content)"

text \<open>
  The parsing rules in the words of the specification: a trimmed line is empty, a
  comment, markup of an HTML or JSON error body, a key or malformed. \<open>spec_parse\<close> keeps
  the keys with their 1-indexed line numbers and counts the discarded lines that are
  not empty.
\<close>

datatype line_class = EmptyLine | CommentLine | MarkupLine | KeyLine | MalformedLine

definition classify :: "string \<Rightarrow> line_class" where
  "classify t =
     (if t = [] then EmptyLine
      else if hd t = CHR ''#'' then CommentLine
      else if hd t = CHR ''<'' \<or> hd t = CHR ''{'' \<or> hd t = CHR ''['' then MarkupLine
      else if 2 \<le> length (Fields t) then KeyLine
      else MalformedLine)"

definition numbered_lines :: "string \<Rightarrow> (nat \<times> string) list" where
  "numbered_lines content = enumerate 1 (map (TrimSpace \<circ> dropCR) (raw_lines content))"

definition spec_parse :: "string \<Rightarrow> ParseResult" where
  "spec_parse content =
     \<lparr>pr_Keys = map (\<lambda>(n, t). \<lparr>pk_Line = t, pk_LineNumber = n\<rparr>)
                  (filter (\<lambda>(n, t). classify t = KeyLine) (numbered_lines content)),
      pr_DiscardedLines =
        length (filter (\<lambda>(n, t). classify t = CommentLine \<or> classify t = MarkupLine
                                   \<or> classify t = MalformedLine) (numbered_lines content))\<rparr>"

section \<open>Package config\<close>

record Source =
  src_URL :: string
  src_Method :: string
  src_Headers :: "(string \<times> string) list"
  src_Body :: string
  src_TimeoutSeconds :: "int option"

record Policy =
  pol_BackupEnabled :: "bool option"
  pol_BackupRetentionCount :: "int option"
  pol_PreserveLocalKeys :: "bool option"

record User =
  usr_Username :: string
  usr_Sources :: "Source list"

record Config =
  cfg_Policy :: Policy
  cfg_Users :: "User list"

definition DefaultBackupRetentionCount :: int where
  "DefaultBackupRetentionCount = 10"

definition IsBackupEnabled :: "Policy \<Rightarrow> bool" where
  "IsBackupEnabled p = (case pol_BackupEnabled p of None \<Rightarrow> True | Some b \<Rightarrow> b)"

definition GetBackupRetentionCount :: "Policy \<Rightarrow> int" where
  "GetBackupRetentionCount p =
     (case pol_BackupRetentionCount p of None \<Rightarrow> DefaultBackupRetentionCount | Some n \<Rightarrow> n)"

definition IsPreserveLocalKeys :: "Policy \<Rightarrow> bool" where
  "IsPreserveLocalKeys p = (case pol_PreserveLocalKeys p of None \<Rightarrow> True | Some b \<Rightarrow> b)"

section \<open>Package keyfetcher\<close>

text \<open>
  What the network answers to the request that \<open>Fetch\<close> builds from a source (method,
  URL, body, the default user agent unless a header overrides it, the custom headers,
  the source's timeout): the request cannot be built, the transport fails (connection,
  timeout), or a response arrives with a status code and a body to read. The request is
  a function of the source, so the answer is modelled as one.
\<close>

datatype http_outcome =
    RequestInvalid string
  | TransportError string
  | Response int reader

record FetchResult =
  fr_Source :: Source
  fr_Keys :: "ParsedKey list"
  fr_Error :: "error option"
  fr_StatusCode :: int
  fr_DiscardedLines :: nat

definition MaxResponseSize :: nat where
  "MaxResponseSize = 10 * 1024 * 1024"

definition StatusOK :: int where
  "StatusOK = 200"

text \<open>
  \<open>io.LimitReader\<close> ends with \<open>io.EOF\<close> once \<open>n\<close> bytes are read and never asks the
  reader below for more; \<open>io.ReadAll\<close> returns the bytes, or the error the reader ends with.
\<close>

definition LimitReader :: "reader \<Rightarrow> nat \<Rightarrow> reader" where
  "LimitReader r n =
     (if n \<le> length (rd_data r) then \<lparr>rd_data = take n (rd_data r), rd_err = None\<rparr> else r)"

definition ReadAll :: "reader \<Rightarrow> error + string" where
  "ReadAll r = (case rd_err r of None \<Rightarrow> Inr (rd_data r) | Some e \<Rightarrow> Inl e)"

text \<open>
  \<open>done\<close> says that the context handed to \<open>Fetch\<close> is cancelled before the response
  has arrived: \<open>client.Do\<close> then returns the context's error.
\<close>

definition Fetch :: "(Source \<Rightarrow> http_outcome) \<Rightarrow> bool \<Rightarrow> Source \<Rightarrow> FetchResult" where
  "Fetch http done source =
     (let result = \<lparr>fr_Source = source, fr_Keys = [], fr_Error = None, fr_StatusCode = 0,
                     fr_DiscardedLines = 0\<rparr> in
      case http source of
        RequestInvalid msg \<Rightarrow>
          result\<lparr>fr_Error := Some (Wrapped ''failed to create request'' (OSError msg))\<rparr>
      | TransportError msg \<Rightarrow>
          result\<lparr>fr_Error := Some (Wrapped ''request failed''
                                 (if done then ContextCanceled else OSError msg))\<rparr>
      | Response code body \<Rightarrow>
          if done then result\<lparr>fr_Error := Some (Wrapped ''request failed'' ContextCanceled)\<rparr>
          else if code \<noteq> StatusOK
          then result\<lparr>fr_StatusCode := code, fr_Error := Some (UnexpectedStatus code)\<rparr>
          else
            (case ReadAll (LimitReader body MaxResponseSize) of
               Inl err \<Rightarrow>
                 result\<lparr>fr_StatusCode := code,
                        fr_Error := Some (Wrapped ''failed to read response body'' err)\<rparr>
             | Inr bytes \<Rightarrow>
                 (case ParseString bytes of
                    Inl err \<Rightarrow>
                      result\<lparr>fr_StatusCode := code,
                             fr_Error := Some (Wrapped ''failed to parse keys'' err)\<rparr>
                  | Inr parseResult \<Rightarrow>
                      result\<lparr>fr_StatusCode := code, fr_Keys := pr_Keys parseResult,
                             fr_DiscardedLines := pr_DiscardedLines parseResult\<rparr>)))"

text \<open>
  \<open>FetchAll\<close>: the sources in order, stopping at the first failure. \<open>ctx j\<close> says whether
  the context is cancelled by the time of the request for the \<open>j\<close>-th source; \<open>j\<close> counts
  the sources already fetched.
\<close>

fun fetch_loop ::
  "(Source \<Rightarrow> http_outcome) \<Rightarrow> (nat \<Rightarrow> bool) \<Rightarrow> nat \<Rightarrow> Source list \<Rightarrow> FetchResult list
     \<Rightarrow> FetchResult list \<times> error option" where
  "fetch_loop http ctx j [] results = (results, None)"
| "fetch_loop http ctx j (source # rest) results =
     (let result = Fetch http (ctx j) source in
      case fr_Error result of
        Some err \<Rightarrow> (results @ [result], Some (Wrapped (src_URL source) err))
      | None \<Rightarrow> fetch_loop http ctx (j + 1) rest (results @ [result]))"

definition FetchAll ::
  "(Source \<Rightarrow> http_outcome) \<Rightarrow> (nat \<Rightarrow> bool) \<Rightarrow> Source list \<Rightarrow> FetchResult list \<times> error option" where
  "FetchAll http ctx sources = fetch_loop http ctx 0 sources []"

section \<open>Package userinfo\<close>

text \<open>
  The operating system as \<open>Lookup\<close> sees it: the user database (\<open>user.Lookup\<close>) and
  \<open>os.Stat\<close> on a path. \<open>Join\<close> is \<open>filepath.Join\<close> on two clean components.
\<close>

record os_user =
  u_Uid :: string
  u_Gid :: string
  u_HomeDir :: string

datatype user_lookup = UnknownUser | LookupFailed string | Found os_user

datatype stat_result = NotExist | StatFailed string | IsDirectory | IsNotDirectory

record os_env =
  os_users :: "string \<Rightarrow> user_lookup"
  os_stat :: "string \<Rightarrow> stat_result"

record UserInfo =
  ui_Username :: string
  ui_UID :: int
  ui_GID :: int
  ui_HomeDir :: string
  ui_SSHDir :: string
  ui_AuthKeysPath :: string
  ui_BackupDir :: string

definition Join :: "string \<Rightarrow> string \<Rightarrow> string" where
  "Join dir name = dir @ ''/'' @ name"

definition is_digit :: "char \<Rightarrow> bool" where
  "is_digit c = (48 \<le> (of_char c :: nat) \<and> (of_char c :: nat) \<le> 57)"

definition digits_value :: "string \<Rightarrow> nat" where
  "digits_value ds = foldl (\<lambda>a c. 10 * a + ((of_char c :: nat) - 48)) 0 ds"

text \<open>\<open>strconv.Atoi\<close>: an optional sign, then decimal digits, within the 64-bit \<open>int\<close>.\<close>

definition Atoi :: "string \<Rightarrow> error + int" where
  "Atoi s =
     (let neg = (s \<noteq> [] \<and> hd s = CHR ''-'');
          ds = (if s \<noteq> [] \<and> (hd s = CHR ''-'' \<or> hd s = CHR ''+'') then tl s else s) in
      if ds = [] \<or> \<not> list_all is_digit ds then Inl (Errorf ''invalid syntax'')
      else
        (let v = (if neg then - int (digits_value ds) else int (digits_value ds)) in
         if v < - (2 ^ 63) \<or> 2 ^ 63 - 1 < v then Inl (Errorf ''value out of range'')
         else Inr v))"

definition Lookup :: "os_env \<Rightarrow> string \<Rightarrow> error + UserInfo" where
  "Lookup os username =
     (case os_users os username of
        UnknownUser \<Rightarrow> Inl (Wrapped username ErrUserNotFound)
      | LookupFailed msg \<Rightarrow> Inl (Wrapped ''failed to lookup user'' (OSError msg))
      | Found u \<Rightarrow>
          (case Atoi (u_Uid u) of
             Inl err \<Rightarrow> Inl (Wrapped ''failed to parse UID'' err)
           | Inr uid \<Rightarrow>
               (case Atoi (u_Gid u) of
                  Inl err \<Rightarrow> Inl (Wrapped ''failed to parse GID'' err)
                | Inr gid \<Rightarrow>
                    if u_HomeDir u = [] then Inl (Wrapped username ErrNoHomeDir)
                    else
                      (let sshDir = Join (u_HomeDir u) ''.ssh'' in
                       case os_stat os sshDir of
                         NotExist \<Rightarrow> Inl (Wrapped sshDir ErrSSHDirNotFound)
                       | StatFailed msg \<Rightarrow>
                           Inl (Wrapped ''failed to stat .ssh directory'' (OSError msg))
                       | IsNotDirectory \<Rightarrow> Inl (Wrapped sshDir ErrSSHDirNotDir)
                       | IsDirectory \<Rightarrow>
                           Inr \<lparr>ui_Username = username, ui_UID = uid, ui_GID = gid,
                                ui_HomeDir = u_HomeDir u, ui_SSHDir = sshDir,
                                ui_AuthKeysPath = Join sshDir ''authorized_keys'',
                                ui_BackupDir = Join sshDir ''authorized_keys_backups''\<rparr>))))"

section \<open>The file system and the other providers\<close>

text \<open>
  The durable state of one identity is its \<open>.ssh\<close> directory: the file
  \<open>authorized_keys\<close> (absent, or its bytes) and the path \<open>authorized_keys_backups\<close>
  (absent, something that is not a directory, or a directory with its entries by name).
  The file system maps the path of an \<open>.ssh\<close> directory to this state. Modes, owners and
  the temporary file of the atomic write are outside the state.
\<close>

datatype node = RegularFile string | Directory

datatype backup_dir = NoBackupDir | BackupNotADir | BackupDir "(string \<times> node) list"

record ssh_dir =
  sd_authorized_keys :: "string option"
  sd_backups :: backup_dir

type_synonym filesys = "string \<Rightarrow> ssh_dir"

text \<open>
  Every system call of the pipeline that can fail is a site; the environment of one
  identity's pipeline says which sites fail, how many bytes a failing copy has written,
  and what the injected clocks and identifier generators return.
\<close>

datatype io_site =
    ReadContent_build
  | ReadContent_backup
  | Backup_StatAuthKeys
  | Backup_StatDir
  | Backup_Mkdir
  | Backup_ChownDir
  | Backup_OpenSrc
  | Backup_OpenDst
  | Backup_Copy
  | Backup_Sync
  | Backup_ChownFile
  | Rotate_ReadDir
  | Rotate_Remove string
  | Write_ReadFile
  | Write_OpenTemp
  | Write_Chmod
  | Write_Chown
  | Write_Write
  | Write_Sync
  | Write_Close
  | Write_Rename

text \<open>
  A UTC wall-clock time by its calendar fields (year up to 9999). The two layouts the
  program uses print every field with a fixed number of decimal digits.
\<close>

record utc_time =
  t_year :: nat
  t_month :: nat
  t_day :: nat
  t_hour :: nat
  t_minute :: nat
  t_second :: nat

definition digit :: "nat \<Rightarrow> char" where
  "digit n = char_of (48 + n mod 10)"

definition pad2 :: "nat \<Rightarrow> string" where
  "pad2 n = [digit (n div 10), digit n]"

definition pad4 :: "nat \<Rightarrow> string" where
  "pad4 n = [digit (n div 1000), digit (n div 100), digit (n div 10), digit n]"

definition format_sync :: "utc_time \<Rightarrow> string" where
  "format_sync t =
     pad4 (t_year t) @ ''-'' @ pad2 (t_month t) @ ''-'' @ pad2 (t_day t) @ ''T''
       @ pad2 (t_hour t) @ '':'' @ pad2 (t_minute t) @ '':'' @ pad2 (t_second t) @ ''Z''"

definition format_compact :: "utc_time \<Rightarrow> string" where
  "format_compact t =
     pad4 (t_year t) @ pad2 (t_month t) @ pad2 (t_day t) @ ''_''
       @ pad2 (t_hour t) @ pad2 (t_minute t) @ pad2 (t_second t)"

record io_env =
  e_fails :: "io_site \<Rightarrow> bool"
  e_copy_bytes :: nat
  e_build_now :: utc_time
  e_backup_now :: utc_time
  e_backup_id :: "error + string"
  e_write_now :: utc_time
  e_write_id :: "error + string"

section \<open>Package sshfile\<close>

record WriteResult =
  wr_Changed :: bool
  wr_Path :: string

definition TempFilePrefix :: string where
  "TempFilePrefix = ''.authkeysync_''"

text \<open>\<open>site\<close> names the call of \<open>ReadContent\<close>, so that each call can fail on its own.\<close>

definition ReadContent :: "io_site \<Rightarrow> io_env \<Rightarrow> filesys \<Rightarrow> string \<Rightarrow> error + string" where
  "ReadContent site env fs sshDir =
     (if e_fails env site
      then Inl (Wrapped ''failed to read authorized_keys'' (OSError ''read''))
      else (case sd_authorized_keys (fs sshDir) of None \<Rightarrow> Inr [] | Some content \<Rightarrow> Inr content))"

definition write_steps :: "io_site list" where
  "write_steps =
     [Write_OpenTemp, Write_Chmod, Write_Chown, Write_Write, Write_Sync, Write_Close, Write_Rename]"

definition write_failure :: "io_site \<Rightarrow> string" where
  "write_failure site =
     (if site = Write_OpenTemp then ''failed to create temp file''
      else if site = Write_Chmod then ''failed to set temp file permissions''
      else if site = Write_Chown then ''failed to set temp file ownership''
      else if site = Write_Write then ''failed to write content''
      else if site = Write_Sync then ''failed to sync temp file''
      else if site = Write_Close then ''failed to close temp file''
      else ''failed to rename temp file'')"

text \<open>
  \<open>WriteAtomic\<close>: unchanged content is not written. Otherwise the temporary file is
  created, restricted, given its owner, written, flushed, closed and renamed onto the
  target; the first step that fails ends the call with the target as it was.
\<close>

definition WriteAtomic ::
  "io_env \<Rightarrow> string \<Rightarrow> string \<Rightarrow> int \<Rightarrow> int \<Rightarrow> filesys \<Rightarrow> (error + WriteResult) \<times> filesys" where
  "WriteAtomic env sshDir content uid gid fs =
     (let authKeysPath = Join sshDir ''authorized_keys'' in
      if \<not> e_fails env Write_ReadFile \<and> sd_authorized_keys (fs sshDir) = Some content
      then (Inr \<lparr>wr_Changed = False, wr_Path = authKeysPath\<rparr>, fs)
      else
        (case e_write_id env of
           Inl err \<Rightarrow> (Inl (Wrapped ''failed to generate temp file ID'' err), fs)
         | Inr ident \<Rightarrow>
             (case find (e_fails env) write_steps of
                Some site \<Rightarrow> (Inl (Wrapped (write_failure site) (OSError ''write'')), fs)
              | None \<Rightarrow>
                  (Inr \<lparr>wr_Changed = True, wr_Path = authKeysPath\<rparr>,
                   fs(sshDir := (fs sshDir)\<lparr>sd_authorized_keys := Some content\<rparr>)))))"

section \<open>Package backup\<close>

definition BackupDirName :: string where
  "BackupDirName = ''authorized_keys_backups''"

definition BackupPrefix :: string where
  "BackupPrefix = ''authorized_keys_''"

fun put_entry :: "string \<Rightarrow> node \<Rightarrow> (string \<times> node) list \<Rightarrow> (string \<times> node) list" where
  "put_entry name n [] = [(name, n)]"
| "put_entry name n ((name', n') # es) =
     (if name' = name then (name, n) # es else (name', n') # put_entry name n es)"

definition backup_entries :: "ssh_dir \<Rightarrow> (string \<times> node) list" where
  "backup_entries sd = (case sd_backups sd of BackupDir es \<Rightarrow> es | _ \<Rightarrow> [])"

definition set_backups :: "filesys \<Rightarrow> string \<Rightarrow> backup_dir \<Rightarrow> filesys" where
  "set_backups fs sshDir b = fs(sshDir := (fs sshDir)\<lparr>sd_backups := b\<rparr>)"

text \<open>\<open>ensureBackupDir\<close>: a directory that is made stays, also when setting its owner fails.\<close>

definition ensureBackupDir :: "io_env \<Rightarrow> string \<Rightarrow> filesys \<Rightarrow> error option \<times> filesys" where
  "ensureBackupDir env sshDir fs =
     (if e_fails env Backup_StatDir
      then (Some (Wrapped ''failed to stat backup directory'' (OSError ''stat'')), fs)
      else
        (case sd_backups (fs sshDir) of
           BackupDir es \<Rightarrow> (None, fs)
         | BackupNotADir \<Rightarrow> (Some (Errorf ''backup path exists but is not a directory''), fs)
         | NoBackupDir \<Rightarrow>
             if e_fails env Backup_Mkdir
             then (Some (Wrapped ''failed to create backup directory'' (OSError ''mkdir'')), fs)
             else if e_fails env Backup_ChownDir
             then (Some (Wrapped ''failed to set backup directory ownership'' (OSError ''chown'')),
                   set_backups fs sshDir (BackupDir []))
             else (None, set_backups fs sshDir (BackupDir []))))"

text \<open>
  \<open>copyFile\<close> into the backup directory: once the destination is opened it exists, and a
  later failure leaves it there with the bytes written so far.
\<close>

definition copyFile ::
  "io_env \<Rightarrow> string \<Rightarrow> string \<Rightarrow> string \<Rightarrow> filesys \<Rightarrow> error option \<times> filesys" where
  "copyFile env sshDir content name fs =
     (let es = backup_entries (fs sshDir) in
      if e_fails env Backup_OpenSrc
      then (Some (Wrapped ''failed to open source file'' (OSError ''open'')), fs)
      else if e_fails env Backup_OpenDst \<or> map_of es name = Some Directory
      then (Some (Wrapped ''failed to create backup file'' (OSError ''open'')), fs)
      else if e_fails env Backup_Copy
      then (Some (Wrapped ''failed to copy file content'' (OSError ''copy'')),
            set_backups fs sshDir
              (BackupDir (put_entry name (RegularFile (take (e_copy_bytes env) content)) es)))
      else if e_fails env Backup_Sync
      then (Some (Wrapped ''failed to sync backup file'' (OSError ''sync'')),
            set_backups fs sshDir (BackupDir (put_entry name (RegularFile content) es)))
      else if e_fails env Backup_ChownFile
      then (Some (Wrapped ''failed to set backup file ownership'' (OSError ''chown'')),
            set_backups fs sshDir (BackupDir (put_entry name (RegularFile content) es)))
      else (None, set_backups fs sshDir (BackupDir (put_entry name (RegularFile content) es))))"

definition CreateBackup ::
  "io_env \<Rightarrow> string \<Rightarrow> int \<Rightarrow> int \<Rightarrow> filesys \<Rightarrow> (error + string) \<times> filesys" where
  "CreateBackup env sshDir uid gid fs =
     (if e_fails env Backup_StatAuthKeys
      then (Inl (Wrapped ''failed to stat authorized_keys'' (OSError ''stat'')), fs)
      else
        (case sd_authorized_keys (fs sshDir) of
           None \<Rightarrow> (Inr [], fs)
         | Some content \<Rightarrow>
             if length content = 0 then (Inr [], fs)
             else
               (let backupDir = Join sshDir BackupDirName in
                case ensureBackupDir env sshDir fs of
                  (Some err, fs1) \<Rightarrow> (Inl err, fs1)
                | (None, fs1) \<Rightarrow>
                    (case e_backup_id env of
                       Inl err \<Rightarrow> (Inl (Wrapped ''failed to generate backup ID'' err), fs1)
                     | Inr ident \<Rightarrow>
                         (let backupFilename =
                                BackupPrefix @ format_compact (e_backup_now env) @ ''_'' @ ident;
                              backupPath = Join backupDir backupFilename in
                          case copyFile env sshDir content backupFilename fs1 of
                            (Some err, fs2) \<Rightarrow> (Inl err, fs2)
                          | (None, fs2) \<Rightarrow> (Inr backupPath, fs2))))))"

text \<open>
  The names \<open>RotateBackups\<close> considers: the entries of the backup directory as
  \<open>os.ReadDir\<close> lists them (by name), without the directories, with the backup prefix,
  sorted by \<open>sort.Strings\<close> (bytewise lexicographic order).
\<close>

definition is_backup_file :: "string \<times> node \<Rightarrow> bool" where
  "is_backup_file e = (snd e \<noteq> Directory \<and> HasPrefix (fst e) BackupPrefix)"

definition backup_names :: "(string \<times> node) list \<Rightarrow> string list" where
  "backup_names es = sort (map fst (filter is_backup_file (sort_key fst es)))"

fun remove_loop ::
  "io_env \<Rightarrow> string list \<Rightarrow> string list \<Rightarrow> (string \<times> node) list
     \<Rightarrow> (string list \<times> error option) \<times> (string \<times> node) list" where
  "remove_loop env [] deleted es = ((deleted, None), es)"
| "remove_loop env (name # rest) deleted es =
     (if e_fails env (Rotate_Remove name)
      then ((deleted, Some (Wrapped ''failed to remove backup'' (OSError ''remove''))), es)
      else remove_loop env rest (deleted @ [name]) (filter (\<lambda>e. fst e \<noteq> name) es))"

definition RotateBackups ::
  "io_env \<Rightarrow> string \<Rightarrow> int \<Rightarrow> filesys \<Rightarrow> (string list \<times> error option) \<times> filesys" where
  "RotateBackups env sshDir retentionCount fs =
     (if retentionCount < 0
      then (([], Some (Errorf ''retention count cannot be negative'')), fs)
      else
        (case sd_backups (fs sshDir) of
           NoBackupDir \<Rightarrow> (([], None), fs)
         | BackupNotADir \<Rightarrow>
             (([], Some (Wrapped ''failed to read backup directory'' (OSError ''readdir''))), fs)
         | BackupDir es \<Rightarrow>
             if e_fails env Rotate_ReadDir
             then (([], Some (Wrapped ''failed to read backup directory'' (OSError ''readdir''))),
                   fs)
             else
               (let backups = backup_names es;
                    deleteCount = int (length backups) - retentionCount in
                if deleteCount \<le> 0 then (([], None), fs)
                else
                  (case remove_loop env (take (nat deleteCount) backups) [] es of
                     (res, es') \<Rightarrow> (res, set_backups fs sshDir (BackupDir es'))))))"

section \<open>Package sync\<close>

text \<open>
  The variables \<open>Version\<close>, \<open>Commit\<close> and \<open>Date\<close> of package \<open>version\<close> are set when the
  binary is linked; they are parameters of the model. Logging is not modelled.
\<close>

record build_info =
  v_Version :: string
  v_Commit :: string
  v_Date :: string

record Syncer =
  sy_cfg :: Config
  sy_dryRun :: bool
  sy_version :: build_info

record UserResult =
  ur_Username :: string
  ur_Skipped :: bool
  ur_SkipReason :: string
  ur_Error :: "error option"
  ur_KeysWritten :: nat
  ur_LocalKeys :: nat
  ur_Changed :: bool
  ur_BackupPath :: string

record SyncResult =
  sr_Users :: "UserResult list"
  sr_HasErrors :: bool

record DuplicateInfo =
  di_Key :: string
  di_FirstSource :: string
  di_DuplicateSource :: string

record ContentStats =
  cs_TotalKeys :: nat
  cs_LocalKeys :: nat
  cs_Duplicates :: "DuplicateInfo list"

record sourceKeys =
  sk_url :: string
  sk_keys :: "string list"

text \<open>
  The inner loop of \<open>buildContent\<close> over the keys of one origin: \<open>seenKeys\<close> maps a
  line to the origin where it was first seen, a line already seen yields a duplicate
  record, a new line is entered for this origin and kept.
\<close>

fun dedup_keys ::
  "string \<Rightarrow> ParsedKey list \<Rightarrow> (string \<rightharpoonup> string) \<times> DuplicateInfo list \<times> string list
     \<Rightarrow> (string \<rightharpoonup> string) \<times> DuplicateInfo list \<times> string list" where
  "dedup_keys origin [] st = st"
| "dedup_keys origin (key # rest) (seenKeys, dups, keys) =
     (case seenKeys (pk_Line key) of
        Some firstSource \<Rightarrow>
          dedup_keys origin rest
            (seenKeys,
             dups @ [\<lparr>di_Key = pk_Line key, di_FirstSource = firstSource,
                      di_DuplicateSource = origin\<rparr>],
             keys)
      | None \<Rightarrow>
          dedup_keys origin rest
            (seenKeys(pk_Line key \<mapsto> origin), dups, keys @ [pk_Line key]))"

fun remote_loop ::
  "FetchResult list \<Rightarrow> (string \<rightharpoonup> string) \<times> DuplicateInfo list \<times> sourceKeys list
     \<Rightarrow> (string \<rightharpoonup> string) \<times> DuplicateInfo list \<times> sourceKeys list" where
  "remote_loop [] st = st"
| "remote_loop (fr # rest) (seenKeys, dups, sources) =
     (case dedup_keys (src_URL (fr_Source fr)) (fr_Keys fr) (seenKeys, dups, []) of
        (seenKeys', dups', keys) \<Rightarrow>
          remote_loop rest
            (seenKeys', dups',
             if 0 < length keys
             then sources @ [\<lparr>sk_url = src_URL (fr_Source fr), sk_keys = keys\<rparr>]
             else sources))"

text \<open>
  The keys that the local file offers: none unless the policy preserves local keys, the
  file is read without error and is not empty, and its content parses.
\<close>

definition local_parsed :: "Syncer \<Rightarrow> io_env \<Rightarrow> filesys \<Rightarrow> UserInfo \<Rightarrow> ParsedKey list" where
  "local_parsed s env fs info =
     (if IsPreserveLocalKeys (cfg_Policy (sy_cfg s))
      then
        (case ReadContent ReadContent_build env fs (ui_SSHDir info) of
           Inl err \<Rightarrow> []
         | Inr existingContent \<Rightarrow>
             if 0 < length existingContent
             then (case ParseString existingContent of
                     Inl err \<Rightarrow> []
                   | Inr parseResult \<Rightarrow> pr_Keys parseResult)
             else [])
      else [])"

definition rule_line :: string where
  "rule_line = ''# '' @ concat (replicate 66 [CHR 0xE2, CHR 0x94, CHR 0x80]) @ [newline]"

definition header :: "build_info \<Rightarrow> string \<Rightarrow> string" where
  "header v timestamp =
     rule_line
     @ ''# Generated by AuthKeySync'' @ [newline]
     @ ''# Version:   '' @ v_Version v @ [newline]
     @ ''# Commit:    '' @ v_Commit v @ [newline]
     @ ''# Built:     '' @ v_Date v @ [newline]
     @ ''# Last sync: '' @ timestamp @ [newline]
     @ ''# More info: https://github.com/eduardolat/authkeysync'' @ [newline]
     @ rule_line"

definition render_keys :: "string list \<Rightarrow> string" where
  "render_keys keys = concat (map (\<lambda>key. key @ [newline]) keys)"

definition render_source :: "sourceKeys \<Rightarrow> string" where
  "render_source src =
     [newline] @ ''# Source: '' @ sk_url src @ [newline] @ render_keys (sk_keys src)"

definition render_local :: "string list \<Rightarrow> string" where
  "render_local localKeys =
     (if 0 < length localKeys
      then [newline] @ ''# Local (preserved)'' @ [newline] @ render_keys localKeys
      else [])"

definition render :: "build_info \<Rightarrow> string \<Rightarrow> sourceKeys list \<Rightarrow> string list \<Rightarrow> string" where
  "render v timestamp sources localKeys =
     header v timestamp @ concat (map render_source sources) @ render_local localKeys"

text \<open>
  The two deduplication passes of \<open>buildContent\<close>, remote sources first and the local
  file last, give the sections to render, the local keys and the duplicate records.
\<close>

definition build_sections ::
  "Syncer \<Rightarrow> io_env \<Rightarrow> filesys \<Rightarrow> UserInfo \<Rightarrow> FetchResult list
     \<Rightarrow> sourceKeys list \<times> string list \<times> DuplicateInfo list" where
  "build_sections s env fs info fetchResults =
     (case remote_loop fetchResults (Map.empty, [], []) of
        (seenKeys, dups, sources) \<Rightarrow>
          (case dedup_keys ''Local'' (local_parsed s env fs info) (seenKeys, dups, []) of
             (seenKeys', dups', localKeys) \<Rightarrow> (sources, localKeys, dups')))"

definition buildContent ::
  "Syncer \<Rightarrow> io_env \<Rightarrow> filesys \<Rightarrow> UserInfo \<Rightarrow> FetchResult list \<Rightarrow> string \<times> ContentStats" where
  "buildContent s env fs info fetchResults =
     (case build_sections s env fs info fetchResults of
        (sources, localKeys, dups) \<Rightarrow>
          (render (sy_version s) (format_sync (e_build_now env)) sources localKeys,
           \<lparr>cs_TotalKeys = length (concat (map sk_keys sources)) + length localKeys,
            cs_LocalKeys = length localKeys,
            cs_Duplicates = dups\<rparr>))"

definition write_step ::
  "io_env \<Rightarrow> UserInfo \<Rightarrow> string \<Rightarrow> UserResult \<Rightarrow> filesys \<Rightarrow> UserResult \<times> filesys" where
  "write_step env info content result fs =
     (case WriteAtomic env (ui_SSHDir info) content (ui_UID info) (ui_GID info) fs of
        (Inl err, fs') \<Rightarrow>
          (result\<lparr>ur_Error := Some (Wrapped ''failed to write authorized_keys'' err)\<rparr>, fs')
      | (Inr writeResult, fs') \<Rightarrow> (result\<lparr>ur_Changed := wr_Changed writeResult\<rparr>, fs'))"

text \<open>
  \<open>syncUser\<close>: resolve, fetch all or abort, build, then (unless this is a dry run)
  back up when backups are enabled and the existing content is not empty and differs,
  rotate, and write. \<open>ctx j\<close> is the state of the context at the \<open>j\<close>-th source.
\<close>

definition syncUser ::
  "Syncer \<Rightarrow> os_env \<Rightarrow> (Source \<Rightarrow> http_outcome) \<Rightarrow> (nat \<Rightarrow> bool) \<Rightarrow> io_env \<Rightarrow> User \<Rightarrow> filesys
     \<Rightarrow> UserResult \<times> filesys" where
  "syncUser s os http ctx env user fs =
     (let result = \<lparr>ur_Username = usr_Username user, ur_Skipped = False, ur_SkipReason = [],
                     ur_Error = None, ur_KeysWritten = 0, ur_LocalKeys = 0, ur_Changed = False,
                     ur_BackupPath = []\<rparr> in
      case Lookup os (usr_Username user) of
        Inl err \<Rightarrow>
          if errors_Is err ErrUserNotFound
          then (result\<lparr>ur_Skipped := True, ur_SkipReason := ''user not found in system''\<rparr>, fs)
          else if errors_Is err ErrSSHDirNotFound
          then (result\<lparr>ur_Skipped := True, ur_SkipReason := ''.ssh directory not found''\<rparr>, fs)
          else if errors_Is err ErrSSHDirNotDir
          then (result\<lparr>ur_Skipped := True,
                       ur_SkipReason := ''.ssh exists but is not a directory''\<rparr>, fs)
          else (result\<lparr>ur_Error := Some (Wrapped ''failed to lookup user'' err)\<rparr>, fs)
      | Inr info \<Rightarrow>
          (case FetchAll http ctx (usr_Sources user) of
             (fetchResults, Some err) \<Rightarrow>
               (result\<lparr>ur_Error := Some (Wrapped ''failed to fetch keys'' err)\<rparr>, fs)
           | (fetchResults, None) \<Rightarrow>
               (case buildContent s env fs info fetchResults of
                  (content, stats) \<Rightarrow>
                    (let result = result\<lparr>ur_KeysWritten := cs_TotalKeys stats,
                                         ur_LocalKeys := cs_LocalKeys stats\<rparr> in
                     if sy_dryRun s then (result, fs)
                     else if IsBackupEnabled (cfg_Policy (sy_cfg s))
                     then
                       (let existingContent =
                              (case ReadContent ReadContent_backup env fs (ui_SSHDir info) of
                                 Inl err \<Rightarrow> [] | Inr c \<Rightarrow> c) in
                        if 0 < length existingContent \<and> existingContent \<noteq> content
                        then
                          (case CreateBackup env (ui_SSHDir info) (ui_UID info) (ui_GID info) fs of
                             (Inl err, fs1) \<Rightarrow>
                               (result\<lparr>ur_Error :=
                                   Some (Wrapped ''failed to create backup'' err)\<rparr>, fs1)
                           | (Inr backupPath, fs1) \<Rightarrow>
                               (let result = (if backupPath \<noteq> []
                                              then result\<lparr>ur_BackupPath := backupPath\<rparr>
                                              else result) in
                                case RotateBackups env (ui_SSHDir info)
                                       (GetBackupRetentionCount (cfg_Policy (sy_cfg s))) fs1 of
                                  (rotated, fs2) \<Rightarrow> write_step env info content result fs2))
                        else write_step env info content result fs)
                     else write_step env info content result fs))))"

text \<open>
  The world of one run: the operating system's users, the network, the state of the
  top-level context (\<open>w_ctx i j\<close>: cancelled by the time of the request for source \<open>j\<close>
  of identity \<open>i\<close>), and the environment of each identity's pipeline.
\<close>

record world =
  w_os :: os_env
  w_http :: "Source \<Rightarrow> http_outcome"
  w_ctx :: "nat \<Rightarrow> nat \<Rightarrow> bool"
  w_env :: "nat \<Rightarrow> io_env"

fun run_loop ::
  "Syncer \<Rightarrow> world \<Rightarrow> nat \<Rightarrow> User list \<Rightarrow> SyncResult \<times> filesys \<Rightarrow> SyncResult \<times> filesys" where
  "run_loop s w i [] st = st"
| "run_loop s w i (user # rest) (result, fs) =
     (case syncUser s (w_os w) (w_http w) (w_ctx w i) (w_env w i) user fs of
        (userResult, fs') \<Rightarrow>
          (let result = result\<lparr>sr_Users := sr_Users result @ [userResult]\<rparr>;
               result = (if ur_Error userResult \<noteq> None then result\<lparr>sr_HasErrors := True\<rparr>
                         else result) in
           run_loop s w (i + 1) rest (result, fs')))"

definition Run :: "Syncer \<Rightarrow> world \<Rightarrow> filesys \<Rightarrow> SyncResult \<times> filesys" where
  "Run s w fs = run_loop s w 0 (cfg_Users (sy_cfg s)) (\<lparr>sr_Users = [], sr_HasErrors = False\<rparr>, fs)"



section \<open>The command\<close>

definition ExitSuccess :: int where
  "ExitSuccess = 0"

definition ExitFailure :: int where
  "ExitFailure = 1"

definition ExitUsage :: int where
  "ExitUsage = 2"

text \<open>
  The command line as \<open>flag.Parse\<close> leaves it. The flag set is the default one
  (\<open>flag.ExitOnError\<close>), so \<open>flag.Parse\<close> ends the process itself: with status 2 when an
  argument cannot be parsed, with status 0 when help is asked for (\<open>-h\<close>, \<open>-help\<close>).
  Otherwise the flags have their values. \<open>inv_load\<close> is \<open>config.Load\<close> on a path.
\<close>

record cli_flags =
  fl_config :: string
  fl_dryRun :: bool
  fl_version :: bool
  fl_debug :: bool
  fl_quiet :: bool
  fl_silent :: bool

datatype flag_outcome = BadFlag | HelpRequested | Parsed cli_flags

record invocation =
  inv_GOOS :: string
  inv_flags :: flag_outcome
  inv_load :: "string \<Rightarrow> error + Config"
  inv_version :: build_info

text \<open>The summary loop of \<open>run\<close>: the counts of succeeded, skipped and failed identities.\<close>

fun count_results :: "UserResult list \<Rightarrow> nat \<times> nat \<times> nat \<Rightarrow> nat \<times> nat \<times> nat" where
  "count_results [] counts = counts"
| "count_results (userResult # rest) (successCount, skippedCount, failedCount) =
     (if ur_Error userResult \<noteq> None
      then count_results rest (successCount, skippedCount, failedCount + 1)
      else if ur_Skipped userResult
      then count_results rest (successCount, skippedCount + 1, failedCount)
      else count_results rest (successCount + 1, skippedCount, failedCount))"

text \<open>
  \<open>run\<close>, with the exits of \<open>flag.Parse\<close> in their place: the result is the exit
  status of the process and the file system it leaves.
\<close>

definition run :: "invocation \<Rightarrow> world \<Rightarrow> filesys \<Rightarrow> int \<times> filesys" where
  "run args w fs =
     (if inv_GOOS args \<noteq> ''linux'' \<and> inv_GOOS args \<noteq> ''darwin'' then (ExitFailure, fs)
      else
        (case inv_flags args of
           BadFlag \<Rightarrow> (ExitUsage, fs)
         | HelpRequested \<Rightarrow> (0, fs)
         | Parsed flags \<Rightarrow>
             if fl_version flags then (ExitSuccess, fs)
             else
               (case inv_load args (fl_config flags) of
                  Inl err \<Rightarrow> (ExitFailure, fs)
                | Inr cfg \<Rightarrow>
                    (case Run \<lparr>sy_cfg = cfg, sy_dryRun = fl_dryRun flags,
                               sy_version = inv_version args\<rparr> w fs of
                       (result, fs') \<Rightarrow>
                         (case count_results (sr_Users result) (0, 0, 0) of
                            (successCount, skippedCount, failedCount) \<Rightarrow>
                              if 0 < failedCount then (ExitFailure, fs')
                              else (ExitSuccess, fs'))))))"

text \<open>
  The syncer an invocation runs, when it gets as far as synchronising: the platform is
  supported, the flags are parsed, no version is asked for and the configuration loads.
  \<open>sync_outcomes\<close> are the per-identity outcomes of the invocation: those of \<open>Run\<close>
  when it gets there, none otherwise.
\<close>

definition reached_syncer :: "invocation \<Rightarrow> Syncer option" where
  "reached_syncer args =
     (if inv_GOOS args \<noteq> ''linux'' \<and> inv_GOOS args \<noteq> ''darwin'' then None
      else
        (case inv_flags args of
           BadFlag \<Rightarrow> None
         | HelpRequested \<Rightarrow> None
         | Parsed flags \<Rightarrow>
             if fl_version flags then None
             else
               (case inv_load args (fl_config flags) of
                  Inl err \<Rightarrow> None
                | Inr cfg \<Rightarrow>
                    Some \<lparr>sy_cfg = cfg, sy_dryRun = fl_dryRun flags,
                          sy_version = inv_version args\<rparr>)))"

definition sync_outcomes :: "invocation \<Rightarrow> world \<Rightarrow> filesys \<Rightarrow> UserResult list" where
  "sync_outcomes args w fs =
     (case reached_syncer args of None \<Rightarrow> [] | Some s \<Rightarrow> sr_Users (fst (Run s w fs)))"

section \<open>What deduplication is to produce\<close>

text \<open>
  In the words of the specification: a key line is kept at its first occurrence in
  processing order (the sources as declared, the local file last) and only there.
  \<open>first_only\<close> keeps the first occurrence of every line of a list; \<open>credited\<close> are
  the lines an origin is credited with, given the lines of the origins before it;
  \<open>expected_sources\<close> are the sections of the sources that keep a line. An occurrence is
  a line with its origin; \<open>expected_duplicates\<close> has a record for every occurrence of a
  line that occurred before, with the origin of the first of the earlier occurrences
  (\<open>map_of\<close> finds the first).
\<close>

fun first_only :: "string list \<Rightarrow> string list" where
  "first_only [] = []"
| "first_only (k # ks) = k # first_only (filter (\<lambda>x. x \<noteq> k) ks)"










section \<open>Classified lookup failures\<close>

text \<open>
  The classes of a failed \<open>Lookup\<close> in the words of the specification; the class of an
  error is read off the sentinel it wraps.
\<close>

datatype lookup_failure =
  UserNotFound | NoHomeDirectory | SSHDirNotFound | SSHDirNotADirectory | GenericLookupError

definition failure_class :: "error \<Rightarrow> lookup_failure" where
  "failure_class err =
     (if errors_Is err ErrUserNotFound then UserNotFound
      else if errors_Is err ErrNoHomeDir then NoHomeDirectory
      else if errors_Is err ErrSSHDirNotFound then SSHDirNotFound
      else if errors_Is err ErrSSHDirNotDir then SSHDirNotADirectory
      else GenericLookupError)"

section \<open>Concrete inputs\<close>

text \<open>
  One identity, \<open>bob\<close>, with two sources; the first source answers with one key, the
  answer of the second is a parameter, as are the home directory, what \<open>.ssh\<close> is, the
  dry-run flag and the clock.
\<close>

definition ex_version :: build_info where
  "ex_version = \<lparr>v_Version = ''dev'', v_Commit = ''none'', v_Date = ''unknown''\<rparr>"

definition ex_source :: "string \<Rightarrow> Source" where
  "ex_source url = \<lparr>src_URL = url, src_Method = [], src_Headers = [], src_Body = [],
                     src_TimeoutSeconds = None\<rparr>"

definition ex_user :: User where
  "ex_user = \<lparr>usr_Username = ''bob'', usr_Sources = [ex_source ''A'', ex_source ''B'']\<rparr>"

definition ex_policy :: Policy where
  "ex_policy = \<lparr>pol_BackupEnabled = None, pol_BackupRetentionCount = None,
                 pol_PreserveLocalKeys = None\<rparr>"

definition ex_syncer :: "bool \<Rightarrow> Syncer" where
  "ex_syncer dry = \<lparr>sy_cfg = \<lparr>cfg_Policy = ex_policy, cfg_Users = [ex_user]\<rparr>, sy_dryRun = dry,
                     sy_version = ex_version\<rparr>"

definition ex_os :: "string \<Rightarrow> stat_result \<Rightarrow> os_env" where
  "ex_os home st =
     \<lparr>os_users = (\<lambda>name. if name = ''bob''
                    then Found \<lparr>u_Uid = ''1000'', u_Gid = ''1000'', u_HomeDir = home\<rparr>
                    else UnknownUser),
      os_stat = (\<lambda>path. st)\<rparr>"

definition ex_info :: UserInfo where
  "ex_info = \<lparr>ui_Username = ''bob'', ui_UID = 1000, ui_GID = 1000, ui_HomeDir = ''/home/bob'',
               ui_SSHDir = ''/home/bob/.ssh'',
               ui_AuthKeysPath = ''/home/bob/.ssh/authorized_keys'',
               ui_BackupDir = ''/home/bob/.ssh/authorized_keys_backups''\<rparr>"

definition ex_http :: "http_outcome \<Rightarrow> Source \<Rightarrow> http_outcome" where
  "ex_http second source =
     (if src_URL source = ''A''
      then Response 200 (NewReader (''ssh-ed25519 AAAA alice@laptop'' @ [newline]))
      else second)"

definition ex_time :: "nat \<Rightarrow> utc_time" where
  "ex_time sec = \<lparr>t_year = 2024, t_month = 6, t_day = 15, t_hour = 10, t_minute = 30,
                   t_second = sec\<rparr>"

definition ex_env :: "nat \<Rightarrow> io_env" where
  "ex_env sec = \<lparr>e_fails = (\<lambda>site. False), e_copy_bytes = 0, e_build_now = ex_time sec,
                  e_backup_now = ex_time sec, e_backup_id = Inr ''abcdef'',
                  e_write_now = ex_time sec, e_write_id = Inr ''ghijkl''\<rparr>"

definition ex_fs :: filesys where
  "ex_fs = (\<lambda>path. \<lparr>sd_authorized_keys = Some (''ssh-rsa CCCC carol@old'' @ [newline]),
                     sd_backups = NoBackupDir\<rparr>)"

definition ex_world :: "http_outcome \<Rightarrow> (nat \<Rightarrow> nat \<Rightarrow> bool) \<Rightarrow> world" where
  "ex_world second ctx = \<lparr>w_os = ex_os ''/home/bob'' IsDirectory, w_http = ex_http second,
                           w_ctx = ctx, w_env = (\<lambda>i. ex_env 45)\<rparr>"

definition ex_flags :: cli_flags where
  "ex_flags = \<lparr>fl_config = ''/etc/authkeysync/config.yaml'', fl_dryRun = False,
                fl_version = False, fl_debug = False, fl_quiet = False, fl_silent = False\<rparr>"

definition ex_args :: "string \<Rightarrow> flag_outcome \<Rightarrow> (error + Config) \<Rightarrow> invocation" where
  "ex_args goos flags loaded = \<lparr>inv_GOOS = goos, inv_flags = flags,
                                 inv_load = (\<lambda>path. loaded), inv_version = ex_version\<rparr>"

definition ex_config :: "User list \<Rightarrow> Config" where
  "ex_config users = \<lparr>cfg_Policy = ex_policy, cfg_Users = users\<rparr>"













section \<open>Properties of the parser\<close>

lemma isValidKey_classify: "isValidKey t = (classify t = KeyLine)"
  by (cases t) (auto simp: isValidKey_def classify_def HasPrefix_def)

lemma classify_discarded:
  "(\<not> isValidKey t \<and> t \<noteq> []) =
   (classify t = CommentLine \<or> classify t = MarkupLine \<or> classify t = MalformedLine)"
  by (cases t) (auto simp: isValidKey_def classify_def HasPrefix_def)

lemma parse_loop_spec:
  "parse_loop n ts res =
     \<lparr>pr_Keys = pr_Keys res @
        map (\<lambda>(n, t). \<lparr>pk_Line = t, pk_LineNumber = n\<rparr>)
          (filter (\<lambda>(n, t). classify t = KeyLine) (enumerate (Suc n) (map TrimSpace ts))),
      pr_DiscardedLines = pr_DiscardedLines res +
        length (filter (\<lambda>(n, t). classify t = CommentLine \<or> classify t = MarkupLine
                                   \<or> classify t = MalformedLine)
                  (enumerate (Suc n) (map TrimSpace ts)))\<rparr>"
proof (induction ts arbitrary: n res)
  case Nil
  show ?case by simp
next
  case (Cons t ts)
  show ?case
  proof (cases "isValidKey (TrimSpace t)")
    case True
    then have k: "classify (TrimSpace t) = KeyLine" by (simp add: isValidKey_classify)
    show ?thesis using True k by (simp add: Cons.IH Let_def)
  next
    case False
    then have nk: "classify (TrimSpace t) \<noteq> KeyLine" by (simp add: isValidKey_classify)
    show ?thesis
    proof (cases "TrimSpace t = []")
      case True
      then have "classify (TrimSpace t) = EmptyLine" by (simp add: classify_def)
      then show ?thesis using False True by (simp add: Cons.IH Let_def)
    next
      case ne: False
      with False have "classify (TrimSpace t) = CommentLine \<or> classify (TrimSpace t) = MarkupLine
          \<or> classify (TrimSpace t) = MalformedLine"
        using classify_discarded by blast
      then show ?thesis using False ne nk by (auto simp add: Cons.IH Let_def)
    qed
  qed
qed

lemma lines_from_no_newline:
  "newline \<notin> set s \<Longrightarrow> lines_from cur s = (if cur @ s = [] then [] else [cur @ s])"
  by (induction s arbitrary: cur) auto

lemma raw_lines_replicate:
  "c \<noteq> newline \<Longrightarrow> 0 < n \<Longrightarrow> raw_lines (replicate n c) = [replicate n c]"
  by (simp add: raw_lines_def lines_from_no_newline)

lemma Parse_eq:
  "Parse r =
     (if list_ex too_long (raw_lines (rd_data r)) then Inl ErrTooLong
      else case rd_err r of Some e \<Rightarrow> Inl e | None \<Rightarrow> Inr (spec_parse (rd_data r)))"
  by (simp add: Parse_def scan_def Let_def parse_loop_spec spec_parse_def numbered_lines_def
      split: option.splits)

lemma ParseString_eq:
  "ParseString content =
     (if list_ex too_long (raw_lines content) then Inl ErrTooLong
      else Inr (spec_parse content))"
  by (simp add: ParseString_def NewReader_def Parse_eq)

text \<open>
  C5 (as amended). \<open>Parse\<close> treats every line on its own after trimming it: an empty
  line is dropped and not counted; a line that starts with \<open>#\<close>, \<open><\<close>, \<open>{\<close> or \<open>[\<close> is
  dropped and counted; any other line is kept when it has at least two fields and is
  dropped and counted otherwise; the kept lines stand in input order with their
  1-indexed line numbers (\<open>spec_parse\<close>). Parsing fails, with no result, exactly when a
  line of the input has 65536 bytes or more (the scanner's token limit), or else the
  reader ends with an error; parsing a string can fail for the first reason only.
\<close>

theorem Parse_follows_line_rules:
  "Parse r =
     (if list_ex too_long (raw_lines (rd_data r)) then Inl ErrTooLong
      else case rd_err r of Some e \<Rightarrow> Inl e | None \<Rightarrow> Inr (spec_parse (rd_data r)))
   \<and> ParseString content =
     (if list_ex too_long (raw_lines content) then Inl ErrTooLong
      else Inr (spec_parse content))"
  by (simp add: Parse_eq ParseString_eq)

theorem Parse_follows_line_rules_witness:
  "ParseString (''ssh-ed25519 AAAA user@host'' @ [newline] @ ''# comment'' @ [newline]
      @ [newline] @ ''<html>'' @ [newline] @ ''  onefield '' @ [carriage_return, newline]
      @ '' opt  ssh-rsa BBBB '')
   = Inr \<lparr>pr_Keys = [\<lparr>pk_Line = ''ssh-ed25519 AAAA user@host'', pk_LineNumber = 1\<rparr>,
                     \<lparr>pk_Line = ''opt  ssh-rsa BBBB'', pk_LineNumber = 6\<rparr>],
          pr_DiscardedLines = 3\<rparr>"
proof -
  let ?c = "''ssh-ed25519 AAAA user@host'' @ [newline] @ ''# comment'' @ [newline]
      @ [newline] @ ''<html>'' @ [newline] @ ''  onefield '' @ [carriage_return, newline]
      @ '' opt  ssh-rsa BBBB ''"
  have l: "raw_lines ?c = [''ssh-ed25519 AAAA user@host'', ''# comment'', [], ''<html>'',
      ''  onefield '' @ [carriage_return], '' opt  ssh-rsa BBBB '']"
    by code_simp
  have short: "\<not> list_ex too_long (raw_lines ?c)"
    unfolding l by (simp add: too_long_def MaxScanTokenSize_def)
  have v: "spec_parse ?c =
      \<lparr>pr_Keys = [\<lparr>pk_Line = ''ssh-ed25519 AAAA user@host'', pk_LineNumber = 1\<rparr>,
                  \<lparr>pk_Line = ''opt  ssh-rsa BBBB'', pk_LineNumber = 6\<rparr>],
       pr_DiscardedLines = 3\<rparr>"
    by code_simp
  from Parse_follows_line_rules [of _ ?c] short v show ?thesis by simp
qed

text \<open>
  C5 as stated fails: a string is read without any read error, and still parsing fails
  when one of its lines does not fit the scanner's buffer.
\<close>

theorem ParseString_fails_without_read_error:
  "rd_err (NewReader (replicate 65536 (CHR ''a''))) = None
   \<and> ParseString (replicate 65536 (CHR ''a'')) = Inl ErrTooLong"
  by (simp add: NewReader_def ParseString_eq raw_lines_replicate newline_def
      too_long_def MaxScanTokenSize_def)

section \<open>Properties of fetching and of the orchestrator's early exits\<close>


lemma fetch_loop_ok_iff:
  "(snd (fetch_loop http ctx j srcs results) = None) =
   (\<forall>k<length srcs. fr_Error (Fetch http (ctx (j + k)) (srcs ! k)) = None)"
proof (induction srcs arbitrary: j results)
  case Nil
  show ?case by simp
next
  case (Cons a srcs)
  show ?case
  proof (cases "fr_Error (Fetch http (ctx j) a)")
    case None
    have "(\<forall>k<length (a # srcs). fr_Error (Fetch http (ctx (j + k)) ((a # srcs) ! k)) = None)
        = (\<forall>k<length srcs. fr_Error (Fetch http (ctx (Suc j + k)) (srcs ! k)) = None)"
      using None by (auto simp: less_Suc_eq_0_disj)
    then show ?thesis using None Cons.IH [of "j + 1"] by (simp add: Let_def)
  next
    case (Some e)
    then show ?thesis by (auto simp: Let_def intro!: exI [of _ 0])
  qed
qed

lemma FetchAll_fails:
  assumes "i < length sources" and "fr_Error (Fetch http (ctx i) (sources ! i)) \<noteq> None"
  shows "\<exists>frs e. FetchAll http ctx sources = (frs, Some e)"
proof -
  have "snd (FetchAll http ctx sources) \<noteq> None"
    using assms fetch_loop_ok_iff [of http ctx 0 sources "[]"] by (auto simp: FetchAll_def)
  then show ?thesis by (cases "FetchAll http ctx sources") auto
qed

lemma syncUser_lookup_failed:
  assumes "Lookup os (usr_Username user) = Inl err"
  shows "syncUser s os http ctx env user fs =
     (if errors_Is err ErrUserNotFound
      then \<lparr>ur_Username = usr_Username user, ur_Skipped = True,
             ur_SkipReason = ''user not found in system'', ur_Error = None, ur_KeysWritten = 0,
             ur_LocalKeys = 0, ur_Changed = False, ur_BackupPath = []\<rparr>
      else if errors_Is err ErrSSHDirNotFound
      then \<lparr>ur_Username = usr_Username user, ur_Skipped = True,
             ur_SkipReason = ''.ssh directory not found'', ur_Error = None, ur_KeysWritten = 0,
             ur_LocalKeys = 0, ur_Changed = False, ur_BackupPath = []\<rparr>
      else if errors_Is err ErrSSHDirNotDir
      then \<lparr>ur_Username = usr_Username user, ur_Skipped = True,
             ur_SkipReason = ''.ssh exists but is not a directory'', ur_Error = None,
             ur_KeysWritten = 0, ur_LocalKeys = 0, ur_Changed = False, ur_BackupPath = []\<rparr>
      else \<lparr>ur_Username = usr_Username user, ur_Skipped = False, ur_SkipReason = [],
             ur_Error = Some (Wrapped ''failed to lookup user'' err), ur_KeysWritten = 0,
             ur_LocalKeys = 0, ur_Changed = False, ur_BackupPath = []\<rparr>, fs)"
  using assms by (simp add: syncUser_def)

lemma syncUser_fetch_failed:
  assumes "Lookup os (usr_Username user) = Inr info"
    and "FetchAll http ctx (usr_Sources user) = (frs, Some e)"
  shows "syncUser s os http ctx env user fs =
     (\<lparr>ur_Username = usr_Username user, ur_Skipped = False, ur_SkipReason = [],
       ur_Error = Some (Wrapped ''failed to fetch keys'' e), ur_KeysWritten = 0,
       ur_LocalKeys = 0, ur_Changed = False, ur_BackupPath = []\<rparr>, fs)"
  using assms by (simp add: syncUser_def)

lemma syncUser_dry_run:
  assumes "Lookup os (usr_Username user) = Inr info"
    and "FetchAll http ctx (usr_Sources user) = (frs, None)"
    and "sy_dryRun s"
  shows "syncUser s os http ctx env user fs =
     (\<lparr>ur_Username = usr_Username user, ur_Skipped = False, ur_SkipReason = [],
       ur_Error = None, ur_KeysWritten = cs_TotalKeys (snd (buildContent s env fs info frs)),
       ur_LocalKeys = cs_LocalKeys (snd (buildContent s env fs info frs)), ur_Changed = False,
       ur_BackupPath = []\<rparr>, fs)"
  using assms by (simp add: syncUser_def Let_def split: prod.splits)

lemma Atoi_errors:
  "Atoi x = Inl e \<Longrightarrow> e = Errorf ''invalid syntax'' \<or> e = Errorf ''value out of range''"
  by (auto simp: Atoi_def Let_def split: if_splits)

lemma Lookup_failures:
  assumes "Lookup os username = Inl err"
  shows "(\<exists>m. err = Wrapped m ErrUserNotFound) \<or> (\<exists>m. err = Wrapped m ErrNoHomeDir)
       \<or> (\<exists>m. err = Wrapped m ErrSSHDirNotFound) \<or> (\<exists>m. err = Wrapped m ErrSSHDirNotDir)
       \<or> (\<exists>m x. err = Wrapped m (OSError x)) \<or> (\<exists>m x. err = Wrapped m (Errorf x))"
  using assms
  by (auto simp: Lookup_def Let_def
      split: user_lookup.splits sum.splits if_splits stat_result.splits dest: Atoi_errors)

lemma Atoi_1000: "Atoi ''1000'' = Inr 1000"
  by (simp add: Atoi_def is_digit_def digits_value_def Let_def)

lemma Lookup_ex: "Lookup (ex_os ''/home/bob'' IsDirectory) ''bob'' = Inr ex_info"
  by (simp add: Lookup_def ex_os_def ex_info_def Atoi_1000 Join_def)

text \<open>
  C1. When the identity resolves and the request for some configured source, at any
  position, fails, the pipeline of that identity stops before any backup or write: the
  file system is what it was (the target file byte for byte, no backup made, none
  rotated), and the outcome carries an error and is not a skip.
\<close>

theorem fetch_failure_aborts_identity:
  assumes "Lookup os (usr_Username user) = Inr info"
    and "i < length (usr_Sources user)"
    and "fr_Error (Fetch http (ctx i) (usr_Sources user ! i)) \<noteq> None"
  shows "snd (syncUser s os http ctx env user fs) = fs
     \<and> ur_Error (fst (syncUser s os http ctx env user fs)) \<noteq> None
     \<and> \<not> ur_Skipped (fst (syncUser s os http ctx env user fs))
     \<and> \<not> ur_Changed (fst (syncUser s os http ctx env user fs))
     \<and> ur_BackupPath (fst (syncUser s os http ctx env user fs)) = []"
proof -
  from FetchAll_fails [of i "usr_Sources user" http ctx] assms(2,3) obtain frs e
    where "FetchAll http ctx (usr_Sources user) = (frs, Some e)" by blast
  from syncUser_fetch_failed [OF assms(1) this] show ?thesis by simp
qed

theorem fetch_failure_aborts_identity_witness:
  "snd (syncUser (ex_syncer False) (ex_os ''/home/bob'' IsDirectory)
          (ex_http (Response 500 (NewReader []))) (\<lambda>j. False) (ex_env 45) ex_user ex_fs) = ex_fs
   \<and> ur_Error (fst (syncUser (ex_syncer False) (ex_os ''/home/bob'' IsDirectory)
          (ex_http (Response 500 (NewReader []))) (\<lambda>j. False) (ex_env 45) ex_user ex_fs)) \<noteq> None
   \<and> \<not> ur_Skipped (fst (syncUser (ex_syncer False) (ex_os ''/home/bob'' IsDirectory)
          (ex_http (Response 500 (NewReader []))) (\<lambda>j. False) (ex_env 45) ex_user ex_fs))
   \<and> \<not> ur_Changed (fst (syncUser (ex_syncer False) (ex_os ''/home/bob'' IsDirectory)
          (ex_http (Response 500 (NewReader []))) (\<lambda>j. False) (ex_env 45) ex_user ex_fs))
   \<and> ur_BackupPath (fst (syncUser (ex_syncer False) (ex_os ''/home/bob'' IsDirectory)
          (ex_http (Response 500 (NewReader []))) (\<lambda>j. False) (ex_env 45) ex_user ex_fs)) = []"
proof -
  have l: "Lookup (ex_os ''/home/bob'' IsDirectory) (usr_Username ex_user) = Inr ex_info"
    by (simp add: ex_user_def Lookup_ex)
  have i: "1 < length (usr_Sources ex_user)"
    by (simp add: ex_user_def)
  have f: "fr_Error (Fetch (ex_http (Response 500 (NewReader []))) False
             (usr_Sources ex_user ! 1)) \<noteq> None"
    by (simp add: ex_user_def ex_http_def ex_source_def Fetch_def StatusOK_def Let_def)
  from fetch_failure_aborts_identity
         [of "ex_os ''/home/bob'' IsDirectory" ex_user ex_info 1
             "ex_http (Response 500 (NewReader []))" "\<lambda>j. False", OF l i f]
  show ?thesis by blast
qed

text \<open>
  C3 (as amended). A failed \<open>Lookup\<close> wraps at most one of the four sentinels, so it
  falls into exactly one of the five classes. The orchestrator skips the identity, with
  no error, for user-not-found, for ssh-dir-not-found and for ssh-dir-not-a-directory,
  and fails it for a generic lookup error. In every case the file system is left as it
  was. (What becomes of a user without a home directory is left out here.)
\<close>

theorem lookup_failure_outcome:
  assumes "Lookup os (usr_Username user) = Inl err"
  shows "errors_Is err ErrUserNotFound = (failure_class err = UserNotFound)
     \<and> errors_Is err ErrNoHomeDir = (failure_class err = NoHomeDirectory)
     \<and> errors_Is err ErrSSHDirNotFound = (failure_class err = SSHDirNotFound)
     \<and> errors_Is err ErrSSHDirNotDir = (failure_class err = SSHDirNotADirectory)
     \<and> snd (syncUser s os http ctx env user fs) = fs
     \<and> (case failure_class err of
           UserNotFound \<Rightarrow>
             ur_Skipped (fst (syncUser s os http ctx env user fs))
             \<and> ur_Error (fst (syncUser s os http ctx env user fs)) = None
         | SSHDirNotFound \<Rightarrow>
             ur_Skipped (fst (syncUser s os http ctx env user fs))
             \<and> ur_Error (fst (syncUser s os http ctx env user fs)) = None
         | SSHDirNotADirectory \<Rightarrow>
             ur_Skipped (fst (syncUser s os http ctx env user fs))
             \<and> ur_Error (fst (syncUser s os http ctx env user fs)) = None
         | GenericLookupError \<Rightarrow>
             \<not> ur_Skipped (fst (syncUser s os http ctx env user fs))
             \<and> ur_Error (fst (syncUser s os http ctx env user fs)) \<noteq> None
         | NoHomeDirectory \<Rightarrow> True)"
  using Lookup_failures [OF assms]
  by (auto simp: syncUser_lookup_failed [OF assms] failure_class_def)

theorem lookup_failure_outcome_witness:
  "failure_class (Wrapped ''eve'' ErrUserNotFound) = UserNotFound
   \<and> snd (syncUser (ex_syncer False) (ex_os ''/home/bob'' IsDirectory)
            (ex_http (Response 500 (NewReader []))) (\<lambda>j. False) (ex_env 45)
            (ex_user\<lparr>usr_Username := ''eve''\<rparr>) ex_fs) = ex_fs
   \<and> ur_Skipped (fst (syncUser (ex_syncer False) (ex_os ''/home/bob'' IsDirectory)
            (ex_http (Response 500 (NewReader []))) (\<lambda>j. False) (ex_env 45)
            (ex_user\<lparr>usr_Username := ''eve''\<rparr>) ex_fs))
   \<and> ur_Error (fst (syncUser (ex_syncer False) (ex_os ''/home/bob'' IsDirectory)
            (ex_http (Response 500 (NewReader []))) (\<lambda>j. False) (ex_env 45)
            (ex_user\<lparr>usr_Username := ''eve''\<rparr>) ex_fs)) = None
   \<and> failure_class (Wrapped ''failed to stat .ssh directory'' (OSError ''EACCES''))
       = GenericLookupError
   \<and> \<not> ur_Skipped (fst (syncUser (ex_syncer False)
            (ex_os ''/home/bob'' (StatFailed ''EACCES''))
            (ex_http (Response 500 (NewReader []))) (\<lambda>j. False) (ex_env 45) ex_user ex_fs))
   \<and> ur_Error (fst (syncUser (ex_syncer False)
            (ex_os ''/home/bob'' (StatFailed ''EACCES''))
            (ex_http (Response 500 (NewReader []))) (\<lambda>j. False) (ex_env 45) ex_user ex_fs))
       \<noteq> None"
proof -
  have l: "Lookup (ex_os ''/home/bob'' IsDirectory) (usr_Username (ex_user\<lparr>usr_Username := ''eve''\<rparr>))
             = Inl (Wrapped ''eve'' ErrUserNotFound)"
    by (simp add: Lookup_def ex_os_def)
  have g: "Lookup (ex_os ''/home/bob'' (StatFailed ''EACCES'')) (usr_Username ex_user)
             = Inl (Wrapped ''failed to stat .ssh directory'' (OSError ''EACCES''))"
    by (simp add: Lookup_def ex_os_def ex_user_def Atoi_1000 Join_def)
  have c: "failure_class (Wrapped ''eve'' ErrUserNotFound) = UserNotFound"
    "failure_class (Wrapped ''failed to stat .ssh directory'' (OSError ''EACCES''))
       = GenericLookupError"
    by (simp_all add: failure_class_def)
  from lookup_failure_outcome [OF l, of "ex_syncer False" "ex_http (Response 500 (NewReader []))"
         "\<lambda>j. False" "ex_env 45" ex_fs]
       lookup_failure_outcome [OF g, of "ex_syncer False" "ex_http (Response 500 (NewReader []))"
         "\<lambda>j. False" "ex_env 45" ex_fs] c
  show ?thesis by simp
qed

text \<open>
  C3 as stated fails by design where it says that an \<open>.ssh\<close> that is not a directory
  makes the identity fail: that identity is skipped, with no error.
\<close>

theorem lookup_skip_set_differs:
  "failure_class (Wrapped ''/home/bob/.ssh'' ErrSSHDirNotDir) = SSHDirNotADirectory
   \<and> Lookup (ex_os ''/home/bob'' IsNotDirectory) ''bob'' = Inl (Wrapped ''/home/bob/.ssh'' ErrSSHDirNotDir)
   \<and> ur_Skipped (fst (syncUser (ex_syncer False) (ex_os ''/home/bob'' IsNotDirectory)
        (ex_http (Response 500 (NewReader []))) (\<lambda>j. False) (ex_env 45) ex_user ex_fs))
   \<and> ur_Error (fst (syncUser (ex_syncer False) (ex_os ''/home/bob'' IsNotDirectory)
        (ex_http (Response 500 (NewReader []))) (\<lambda>j. False) (ex_env 45) ex_user ex_fs)) = None"
proof -
  have l1: "Lookup (ex_os ''/home/bob'' IsNotDirectory) (usr_Username ex_user)
              = Inl (Wrapped ''/home/bob/.ssh'' ErrSSHDirNotDir)"
    by (simp add: Lookup_def ex_os_def ex_user_def Atoi_1000 Join_def)
  have u: "usr_Username ex_user = ''bob''" by (simp add: ex_user_def)
  show ?thesis
    using l1 by (simp add: syncUser_lookup_failed [OF l1] failure_class_def u)
qed

text \<open>
  The code at a user whose home directory is empty: \<open>Lookup\<close> returns the sentinel
  \<open>ErrNoHomeDir\<close>, \<open>syncUser\<close> has no branch for it, and the identity fails. The
  repository's documentation lists the missing home directory among the conditions
  under which a user is skipped.
\<close>

lemma no_home_directory_fails_identity:
  "Lookup (ex_os [] IsDirectory) ''bob'' = Inl (Wrapped ''bob'' ErrNoHomeDir)
   \<and> failure_class (Wrapped ''bob'' ErrNoHomeDir) = NoHomeDirectory
   \<and> \<not> ur_Skipped (fst (syncUser (ex_syncer False) (ex_os [] IsDirectory)
        (ex_http (Response 500 (NewReader []))) (\<lambda>j. False) (ex_env 45) ex_user ex_fs))
   \<and> ur_Error (fst (syncUser (ex_syncer False) (ex_os [] IsDirectory)
        (ex_http (Response 500 (NewReader []))) (\<lambda>j. False) (ex_env 45) ex_user ex_fs))
       = Some (Wrapped ''failed to lookup user'' (Wrapped ''bob'' ErrNoHomeDir))"
proof -
  have l2: "Lookup (ex_os [] IsDirectory) (usr_Username ex_user) = Inl (Wrapped ''bob'' ErrNoHomeDir)"
    by (simp add: Lookup_def ex_os_def ex_user_def Atoi_1000)
  have u: "usr_Username ex_user = ''bob''" by (simp add: ex_user_def)
  show ?thesis
    using l2 by (simp add: syncUser_lookup_failed [OF l2] failure_class_def u)
qed

section \<open>Dry runs and the exit status\<close>

lemma write_step_keeps:
  "ur_Skipped (fst (write_step env info content result fs)) = ur_Skipped result"
  by (simp add: write_step_def split: prod.splits sum.splits)

lemma syncUser_resolved_not_skipped:
  assumes "Lookup os (usr_Username user) = Inr info"
  shows "\<not> ur_Skipped (fst (syncUser s os http ctx env user fs))"
  using assms
  by (simp add: syncUser_def Let_def write_step_keeps split: prod.splits option.splits sum.splits)

lemma syncUser_skipped_no_error:
  "ur_Skipped (fst (syncUser s os http ctx env user fs))
     \<Longrightarrow> ur_Error (fst (syncUser s os http ctx env user fs)) = None"
proof (cases "Lookup os (usr_Username user)")
  case (Inl err)
  assume "ur_Skipped (fst (syncUser s os http ctx env user fs))"
  then show ?thesis by (simp add: syncUser_lookup_failed [OF Inl] split: if_splits)
next
  case (Inr info)
  assume "ur_Skipped (fst (syncUser s os http ctx env user fs))"
  with syncUser_resolved_not_skipped [OF Inr] show ?thesis by blast
qed

lemma syncUser_dry_fs:
  assumes "sy_dryRun s"
  shows "snd (syncUser s os http ctx env user fs) = fs
     \<and> \<not> ur_Changed (fst (syncUser s os http ctx env user fs))
     \<and> ur_BackupPath (fst (syncUser s os http ctx env user fs)) = []"
proof (cases "Lookup os (usr_Username user)")
  case (Inl err)
  show ?thesis by (simp add: syncUser_lookup_failed [OF Inl])
next
  case (Inr info)
  obtain frs eo where f: "FetchAll http ctx (usr_Sources user) = (frs, eo)"
    by (cases "FetchAll http ctx (usr_Sources user)")
  show ?thesis
  proof (cases eo)
    case None
    with f have "FetchAll http ctx (usr_Sources user) = (frs, None)" by simp
    from syncUser_dry_run [OF Inr this assms] show ?thesis by simp
  next
    case (Some e)
    with f have "FetchAll http ctx (usr_Sources user) = (frs, Some e)" by simp
    from syncUser_fetch_failed [OF Inr this] show ?thesis by simp
  qed
qed

lemma run_loop_dry:
  "sy_dryRun s \<Longrightarrow> snd (run_loop s w i users (res, fs)) = fs"
proof (induction users arbitrary: i res)
  case Nil
  show ?case by simp
next
  case (Cons u users)
  obtain r fs' where sy: "syncUser s (w_os w) (w_http w) (w_ctx w i) (w_env w i) u fs = (r, fs')"
    by (cases "syncUser s (w_os w) (w_http w) (w_ctx w i) (w_env w i) u fs")
  with syncUser_dry_fs [OF Cons.prems, of "w_os w" "w_http w" "w_ctx w i" "w_env w i" u fs]
  have "fs' = fs" by simp
  with sy Cons.IH [OF Cons.prems] show ?case by (simp add: Let_def)
qed

text \<open>
  C6. In dry-run mode the pipeline of an identity resolves, fetches and builds, reports
  the counts of the content it built, and stops there: no backup is made, none is
  rotated, the target is not written; the file system after the identity, and after the
  whole run, is the one before.
\<close>

theorem dry_run_changes_nothing:
  assumes "sy_dryRun s"
  shows "snd (syncUser s os http ctx env user fs) = fs
     \<and> \<not> ur_Changed (fst (syncUser s os http ctx env user fs))
     \<and> ur_BackupPath (fst (syncUser s os http ctx env user fs)) = []
     \<and> snd (Run s w fs) = fs
     \<and> (case Lookup os (usr_Username user) of
           Inl err \<Rightarrow> True
         | Inr info \<Rightarrow>
             (case FetchAll http ctx (usr_Sources user) of
                (frs, Some e) \<Rightarrow> True
              | (frs, None) \<Rightarrow>
                  ur_Error (fst (syncUser s os http ctx env user fs)) = None
                  \<and> ur_KeysWritten (fst (syncUser s os http ctx env user fs))
                      = cs_TotalKeys (snd (buildContent s env fs info frs))
                  \<and> ur_LocalKeys (fst (syncUser s os http ctx env user fs))
                      = cs_LocalKeys (snd (buildContent s env fs info frs))))"
proof -
  have "case Lookup os (usr_Username user) of
           Inl err \<Rightarrow> True
         | Inr info \<Rightarrow>
             (case FetchAll http ctx (usr_Sources user) of
                (frs, Some e) \<Rightarrow> True
              | (frs, None) \<Rightarrow>
                  ur_Error (fst (syncUser s os http ctx env user fs)) = None
                  \<and> ur_KeysWritten (fst (syncUser s os http ctx env user fs))
                      = cs_TotalKeys (snd (buildContent s env fs info frs))
                  \<and> ur_LocalKeys (fst (syncUser s os http ctx env user fs))
                      = cs_LocalKeys (snd (buildContent s env fs info frs)))"
    using assms by (auto simp: syncUser_dry_run split: sum.splits prod.splits option.splits)
  with syncUser_dry_fs [OF assms] run_loop_dry [OF assms] show ?thesis
    by (simp add: Run_def)
qed

lemma count_results_failed:
  "snd (snd (count_results rs (a, b, c))) = c + length (filter (\<lambda>r. ur_Error r \<noteq> None) rs)"
  by (induction rs arbitrary: a b c) auto

lemma run_loop_users:
  assumes "\<forall>r\<in>set (sr_Users res). P r"
    and "\<And>os http ctx env user fs. P (fst (syncUser s os http ctx env user fs))"
  shows "\<forall>r\<in>set (sr_Users (fst (run_loop s w i users (res, fs)))). P r"
  using assms(1)
proof (induction users arbitrary: i res fs)
  case Nil
  then show ?case by simp
next
  case (Cons u users)
  obtain r fs' where sy: "syncUser s (w_os w) (w_http w) (w_ctx w i) (w_env w i) u fs = (r, fs')"
    by (cases "syncUser s (w_os w) (w_http w) (w_ctx w i) (w_env w i) u fs")
  have "P r" using assms(2) [of "w_os w" "w_http w" "w_ctx w i" "w_env w i" u fs] sy by simp
  with Cons.prems sy show ?case
    by (auto simp: Let_def intro!: Cons.IH)
qed

lemma run_loop_has_errors:
  assumes "sr_HasErrors res = (\<exists>r\<in>set (sr_Users res). ur_Error r \<noteq> None)"
  shows "sr_HasErrors (fst (run_loop s w i users (res, fs))) =
     (\<exists>r\<in>set (sr_Users (fst (run_loop s w i users (res, fs)))). ur_Error r \<noteq> None)"
  using assms
proof (induction users arbitrary: i res fs)
  case Nil
  then show ?case by simp
next
  case (Cons u users)
  obtain r fs' where sy: "syncUser s (w_os w) (w_http w) (w_ctx w i) (w_env w i) u fs = (r, fs')"
    by (cases "syncUser s (w_os w) (w_http w) (w_ctx w i) (w_env w i) u fs")
  show ?case
  proof (cases "ur_Error r")
    case None
    have "run_loop s w i (u # users) (res, fs)
            = run_loop s w (i + 1) users (res\<lparr>sr_Users := sr_Users res @ [r]\<rparr>, fs')"
      using sy None by (simp add: Let_def)
    moreover have "sr_HasErrors (res\<lparr>sr_Users := sr_Users res @ [r]\<rparr>)
        = (\<exists>x\<in>set (sr_Users (res\<lparr>sr_Users := sr_Users res @ [r]\<rparr>)). ur_Error x \<noteq> None)"
      using Cons.prems None by auto
    ultimately show ?thesis using Cons.IH by simp
  next
    case (Some e)
    have "run_loop s w i (u # users) (res, fs)
            = run_loop s w (i + 1) users
                (res\<lparr>sr_Users := sr_Users res @ [r], sr_HasErrors := True\<rparr>, fs')"
      using sy Some by (simp add: Let_def)
    moreover have "sr_HasErrors (res\<lparr>sr_Users := sr_Users res @ [r], sr_HasErrors := True\<rparr>)
        = (\<exists>x\<in>set (sr_Users (res\<lparr>sr_Users := sr_Users res @ [r], sr_HasErrors := True\<rparr>)).
             ur_Error x \<noteq> None)"
      using Some by auto
    ultimately show ?thesis using Cons.IH by simp
  qed
qed

theorem dry_run_changes_nothing_witness:
  "snd (syncUser (ex_syncer True) (ex_os ''/home/bob'' IsDirectory)
          (ex_http (Response 200 (NewReader (''ssh-rsa BBBB bob@pc'' @ [newline]))))
          (\<lambda>j. False) (ex_env 45) ex_user ex_fs) = ex_fs
   \<and> \<not> ur_Changed (fst (syncUser (ex_syncer True) (ex_os ''/home/bob'' IsDirectory)
          (ex_http (Response 200 (NewReader (''ssh-rsa BBBB bob@pc'' @ [newline]))))
          (\<lambda>j. False) (ex_env 45) ex_user ex_fs))
   \<and> ur_BackupPath (fst (syncUser (ex_syncer True) (ex_os ''/home/bob'' IsDirectory)
          (ex_http (Response 200 (NewReader (''ssh-rsa BBBB bob@pc'' @ [newline]))))
          (\<lambda>j. False) (ex_env 45) ex_user ex_fs)) = []
   \<and> snd (Run (ex_syncer True)
          (ex_world (Response 200 (NewReader (''ssh-rsa BBBB bob@pc'' @ [newline])))
             (\<lambda>i j. False)) ex_fs) = ex_fs"
proof -
  have d: "sy_dryRun (ex_syncer True)" by (simp add: ex_syncer_def)
  from dry_run_changes_nothing [OF d, of "ex_os ''/home/bob'' IsDirectory"
      "ex_http (Response 200 (NewReader (''ssh-rsa BBBB bob@pc'' @ [newline])))"
      "\<lambda>j. False" "ex_env 45" ex_user ex_fs
      "ex_world (Response 200 (NewReader (''ssh-rsa BBBB bob@pc'' @ [newline]))) (\<lambda>i j. False)"]
  show ?thesis by blast
qed

lemma run_reached:
  assumes "reached_syncer args = Some s"
  shows "run args w fs =
     (if \<exists>r\<in>set (sr_Users (fst (Run s w fs))). ur_Error r \<noteq> None then ExitFailure
      else ExitSuccess, snd (Run s w fs))"
proof -
  obtain result fs' where R: "Run s w fs = (result, fs')" by (cases "Run s w fs")
  obtain a b c where C: "count_results (sr_Users result) (0, 0, 0) = (a, b, c)"
    by (cases "count_results (sr_Users result) (0, 0, 0)")
  have c: "c = length (filter (\<lambda>r. ur_Error r \<noteq> None) (sr_Users result))"
    using count_results_failed [of "sr_Users result" 0 0 0] C by simp
  have "(0 < c) = (filter (\<lambda>r. ur_Error r \<noteq> None) (sr_Users result) \<noteq> [])"
    unfolding c by blast
  then have pos: "(0 < c) = (\<exists>r\<in>set (sr_Users result). ur_Error r \<noteq> None)"
    by (simp add: filter_empty_conv)
  have "run args w fs = (if 0 < c then ExitFailure else ExitSuccess, fs')"
    using assms R C
    by (auto simp: run_def reached_syncer_def split: if_splits flag_outcome.splits sum.splits)
  then show ?thesis unfolding pos using R by simp
qed

lemma run_not_reached:
  assumes "reached_syncer args = None"
  shows "run args w fs =
     (if inv_GOOS args \<noteq> ''linux'' \<and> inv_GOOS args \<noteq> ''darwin'' then ExitFailure
      else (case inv_flags args of
              BadFlag \<Rightarrow> ExitUsage
            | HelpRequested \<Rightarrow> ExitSuccess
            | Parsed flags \<Rightarrow> if fl_version flags then ExitSuccess else ExitFailure), fs)"
  using assms
  by (auto simp: run_def reached_syncer_def ExitSuccess_def
      split: if_splits flag_outcome.splits sum.splits)

lemma Run_skipped_no_error:
  "\<forall>r\<in>set (sr_Users (fst (Run s w fs))). ur_Skipped r \<longrightarrow> ur_Error r = None"
  using run_loop_users [of "\<lparr>sr_Users = [], sr_HasErrors = False\<rparr>"
      "\<lambda>r. ur_Skipped r \<longrightarrow> ur_Error r = None" s w 0 "cfg_Users (sy_cfg s)" fs]
    syncUser_skipped_no_error
  by (simp add: Run_def)

text \<open>
  C8 (as amended). When the command gets as far as synchronising (supported platform,
  flags parsed, no version asked for, configuration loaded), its exit status is success
  exactly when no identity's outcome carries an error, and failure (1) exactly when at
  least one does; a skipped outcome never carries an error, so skipped identities do
  not count. When it does not get there, no identity is processed, the file system is
  untouched, and the status is 1 for an unsupported platform or a configuration that
  does not load, 2 for a bad flag, and 0 for help or the version.
\<close>

theorem exit_status_reflects_failures:
  "(case reached_syncer args of
      Some s \<Rightarrow>
        sync_outcomes args w fs = sr_Users (fst (Run s w fs))
        \<and> (fst (run args w fs) = ExitSuccess) =
              (\<forall>r\<in>set (sync_outcomes args w fs). ur_Error r = None)
        \<and> (fst (run args w fs) = ExitFailure) =
              (\<exists>r\<in>set (sync_outcomes args w fs). ur_Error r \<noteq> None)
        \<and> (fst (run args w fs) = ExitSuccess) =
              (\<forall>r\<in>set (sync_outcomes args w fs). \<not> ur_Skipped r \<longrightarrow> ur_Error r = None)
        \<and> (\<forall>r\<in>set (sync_outcomes args w fs). ur_Skipped r \<longrightarrow> ur_Error r = None)
        \<and> sr_HasErrors (fst (Run s w fs)) = (fst (run args w fs) = ExitFailure)
        \<and> snd (run args w fs) = snd (Run s w fs)
    | None \<Rightarrow>
        sync_outcomes args w fs = []
        \<and> snd (run args w fs) = fs
        \<and> fst (run args w fs) =
            (if inv_GOOS args \<noteq> ''linux'' \<and> inv_GOOS args \<noteq> ''darwin'' then ExitFailure
             else (case inv_flags args of
                     BadFlag \<Rightarrow> ExitUsage
                   | HelpRequested \<Rightarrow> ExitSuccess
                   | Parsed flags \<Rightarrow> if fl_version flags then ExitSuccess else ExitFailure)))"
proof (cases "reached_syncer args")
  case None
  then show ?thesis by (simp add: run_not_reached sync_outcomes_def)
next
  case (Some s)
  have so: "sync_outcomes args w fs = sr_Users (fst (Run s w fs))"
    using Some by (simp add: sync_outcomes_def)
  note sk = Run_skipped_no_error [of s w fs]
  have he: "sr_HasErrors (fst (Run s w fs))
      = (\<exists>r\<in>set (sr_Users (fst (Run s w fs))). ur_Error r \<noteq> None)"
    using run_loop_has_errors [of "\<lparr>sr_Users = [], sr_HasErrors = False\<rparr>" s w 0
        "cfg_Users (sy_cfg s)" fs]
    by (simp add: Run_def)
  have all: "(\<forall>r\<in>set (sr_Users (fst (Run s w fs))). \<not> ur_Skipped r \<longrightarrow> ur_Error r = None)
      = (\<forall>r\<in>set (sr_Users (fst (Run s w fs))). ur_Error r = None)"
    using sk by blast
  have ex: "(\<exists>r\<in>set (sr_Users (fst (Run s w fs))). ur_Error r \<noteq> None)
      = (\<not> (\<forall>r\<in>set (sr_Users (fst (Run s w fs))). ur_Error r = None))"
    by auto
  have codes: "ExitSuccess \<noteq> ExitFailure" by (simp add: ExitSuccess_def ExitFailure_def)
  show ?thesis
    unfolding Some option.case so run_reached [OF Some] fst_conv snd_conv all he ex
    using sk codes by simp
qed

text \<open>
  Two invocations that reach the synchronisation: with one identity that is skipped
  the status is success; with a skipped identity and one whose second source answers
  500 the status is failure.
\<close>

theorem exit_status_reflects_failures_witness:
  "fst (run (ex_args ''linux'' (Parsed ex_flags)
               (Inr (ex_config [ex_user\<lparr>usr_Username := ''eve''\<rparr>])))
          (ex_world (Response 500 (NewReader [])) (\<lambda>i j. False)) ex_fs) = ExitSuccess
   \<and> map ur_Skipped (sync_outcomes (ex_args ''linux'' (Parsed ex_flags)
               (Inr (ex_config [ex_user\<lparr>usr_Username := ''eve''\<rparr>])))
          (ex_world (Response 500 (NewReader [])) (\<lambda>i j. False)) ex_fs) = [True]
   \<and> fst (run (ex_args ''linux'' (Parsed ex_flags)
               (Inr (ex_config [ex_user\<lparr>usr_Username := ''eve''\<rparr>, ex_user])))
          (ex_world (Response 500 (NewReader [])) (\<lambda>i j. False)) ex_fs) = ExitFailure
   \<and> map ur_Skipped (sync_outcomes (ex_args ''linux'' (Parsed ex_flags)
               (Inr (ex_config [ex_user\<lparr>usr_Username := ''eve''\<rparr>, ex_user])))
          (ex_world (Response 500 (NewReader [])) (\<lambda>i j. False)) ex_fs) = [True, False]"
proof -
  let ?u = "ex_user\<lparr>usr_Username := ''eve''\<rparr>"
  let ?w = "ex_world (Response 500 (NewReader [])) (\<lambda>i j. False)"
  let ?a1 = "ex_args ''linux'' (Parsed ex_flags) (Inr (ex_config [?u]))"
  let ?a2 = "ex_args ''linux'' (Parsed ex_flags) (Inr (ex_config [?u, ex_user]))"
  let ?s1 = "\<lparr>sy_cfg = ex_config [?u], sy_dryRun = False, sy_version = ex_version\<rparr>"
  let ?s2 = "\<lparr>sy_cfg = ex_config [?u, ex_user], sy_dryRun = False, sy_version = ex_version\<rparr>"
  let ?skipped = "\<lparr>ur_Username = ''eve'', ur_Skipped = True,
        ur_SkipReason = ''user not found in system'',
        ur_Error = None, ur_KeysWritten = 0, ur_LocalKeys = 0, ur_Changed = False,
        ur_BackupPath = []\<rparr>"
  have r1: "reached_syncer ?a1 = Some ?s1" and r2: "reached_syncer ?a2 = Some ?s2"
    by (simp_all add: reached_syncer_def ex_args_def ex_flags_def)
  have l: "Lookup (w_os ?w) (usr_Username ?u) = Inl (Wrapped ''eve'' ErrUserNotFound)"
    by (simp add: Lookup_def ex_os_def ex_world_def)
  have lb: "Lookup (w_os ?w) (usr_Username ex_user) = Inr ex_info"
    by (simp add: ex_world_def ex_user_def Lookup_ex)
  have i: "1 < length (usr_Sources ex_user)"
    by (simp add: ex_user_def)
  have f: "fr_Error (Fetch (w_http ?w) (w_ctx ?w (Suc 0) 1) (usr_Sources ex_user ! 1)) \<noteq> None"
    by (simp add: ex_world_def ex_user_def ex_http_def ex_source_def Fetch_def StatusOK_def
        Let_def)
  from FetchAll_fails [of 1 "usr_Sources ex_user" "w_http ?w" "w_ctx ?w (Suc 0)"] i f
  obtain frs e where fa: "FetchAll (w_http ?w) (w_ctx ?w (Suc 0)) (usr_Sources ex_user) = (frs, Some e)"
    by blast
  have o1: "sr_Users (fst (Run ?s1 ?w ex_fs)) = [?skipped]"
    by (simp add: Run_def ex_config_def syncUser_lookup_failed [OF l] Let_def)
  have o2: "sr_Users (fst (Run ?s2 ?w ex_fs)) =
      [?skipped,
       \<lparr>ur_Username = usr_Username ex_user, ur_Skipped = False, ur_SkipReason = [],
        ur_Error = Some (Wrapped ''failed to fetch keys'' e), ur_KeysWritten = 0,
        ur_LocalKeys = 0, ur_Changed = False, ur_BackupPath = []\<rparr>]"
    by (simp add: Run_def ex_config_def syncUser_lookup_failed [OF l]
        syncUser_fetch_failed [OF lb fa] Let_def)
  from exit_status_reflects_failures [of ?a1 ?w ex_fs] exit_status_reflects_failures [of ?a2 ?w ex_fs]
  show ?thesis unfolding r1 r2 option.case o1 o2 by simp
qed

text \<open>
  C8 as stated fails: with a configuration that does not load the command exits with
  status 1 although no identity failed (none was processed); a bad flag gives status 2,
  which is neither 0 nor 1.
\<close>

theorem exit_failure_without_failed_identity:
  "fst (run (ex_args ''linux'' (Parsed ex_flags) (Inl (Errorf ''failed to read config file'')))
          (ex_world (Response 500 (NewReader [])) (\<lambda>i j. False)) ex_fs) = ExitFailure
   \<and> sync_outcomes (ex_args ''linux'' (Parsed ex_flags) (Inl (Errorf ''failed to read config file'')))
          (ex_world (Response 500 (NewReader [])) (\<lambda>i j. False)) ex_fs = []
   \<and> fst (run (ex_args ''linux'' BadFlag (Inr (ex_config [ex_user])))
          (ex_world (Response 500 (NewReader [])) (\<lambda>i j. False)) ex_fs) = 2
   \<and> sync_outcomes (ex_args ''linux'' BadFlag (Inr (ex_config [ex_user])))
          (ex_world (Response 500 (NewReader [])) (\<lambda>i j. False)) ex_fs = []"
  by (simp add: run_def sync_outcomes_def reached_syncer_def ex_args_def ex_flags_def
      ExitUsage_def)

section \<open>Rotation of backups\<close>












section \<open>The size limit of a response\<close>

lemma lines_from_newlines:
  "lines_from cur (replicate (Suc m) newline @ s) = cur # replicate m [] @ lines_from [] s"
  by (induction m arbitrary: cur) simp_all

lemma raw_lines_newlines_then_line:
  assumes "newline \<notin> set l" and "l \<noteq> []"
  shows "raw_lines (replicate m newline @ l) = replicate m [] @ [l]"
proof (cases m)
  case 0
  then show ?thesis using assms by (simp add: raw_lines_def lines_from_no_newline)
next
  case (Suc k)
  have "raw_lines (replicate (Suc k) newline @ l) = [] # replicate k [] @ [l]"
    unfolding raw_lines_def lines_from_newlines using assms
    by (simp add: lines_from_no_newline)
  then show ?thesis using Suc by simp
qed

lemma filter_enumerate_replicate:
  assumes "\<And>i. \<not> P (i, x)"
  shows "filter P (enumerate n (replicate m x)) = []"
  using assms by (auto simp: filter_empty_conv in_set_enumerate_eq)

lemma Fetch_limited:
  assumes "http source = Response 200 body" and "MaxResponseSize < length (rd_data body)"
  shows "Fetch http False source =
     (case ParseString (take MaxResponseSize (rd_data body)) of
        Inl err \<Rightarrow>
          \<lparr>fr_Source = source, fr_Keys = [],
           fr_Error = Some (Wrapped ''failed to parse keys'' err), fr_StatusCode = 200,
           fr_DiscardedLines = 0\<rparr>
      | Inr parseResult \<Rightarrow>
          \<lparr>fr_Source = source, fr_Keys = pr_Keys parseResult, fr_Error = None,
           fr_StatusCode = 200, fr_DiscardedLines = pr_DiscardedLines parseResult\<rparr>)"
  using assms
  by (simp add: Fetch_def Let_def StatusOK_def LimitReader_def ReadAll_def split: sum.splits)

text \<open>
  C10 (as amended). When a response with status 200 arrives and its body has more than
  10 MiB, \<open>Fetch\<close> reads the first 10 MiB only, whatever follows them (more bytes, or
  an error of the body), and parses those. Its result is the one it gives for a
  response whose body is exactly these first 10 MiB, so nothing in it shows that bytes
  were dropped. The error is nil exactly when no line of the first 10 MiB has 65536
  bytes or more; otherwise \<open>Fetch\<close> fails with the scanner's error.
\<close>

theorem Fetch_truncates_silently:
  assumes "http source = Response 200 body"
    and "MaxResponseSize < length (rd_data body)"
    and "\<not> done"
  shows "Fetch http done source =
     (case ParseString (take MaxResponseSize (rd_data body)) of
        Inl err \<Rightarrow>
          \<lparr>fr_Source = source, fr_Keys = [],
           fr_Error = Some (Wrapped ''failed to parse keys'' err), fr_StatusCode = 200,
           fr_DiscardedLines = 0\<rparr>
      | Inr parseResult \<Rightarrow>
          \<lparr>fr_Source = source, fr_Keys = pr_Keys parseResult, fr_Error = None,
           fr_StatusCode = 200, fr_DiscardedLines = pr_DiscardedLines parseResult\<rparr>)
   \<and> (fr_Error (Fetch http done source) = None) =
       (\<not> list_ex too_long (raw_lines (take MaxResponseSize (rd_data body))))
   \<and> Fetch http done source =
       Fetch (\<lambda>s. Response 200 (NewReader (take MaxResponseSize (rd_data body)))) done source"
proof -
  have d: "done = False" using assms(3) by simp
  have 1: "Fetch http False source =
     (case ParseString (take MaxResponseSize (rd_data body)) of
        Inl err \<Rightarrow>
          \<lparr>fr_Source = source, fr_Keys = [],
           fr_Error = Some (Wrapped ''failed to parse keys'' err), fr_StatusCode = 200,
           fr_DiscardedLines = 0\<rparr>
      | Inr parseResult \<Rightarrow>
          \<lparr>fr_Source = source, fr_Keys = pr_Keys parseResult, fr_Error = None,
           fr_StatusCode = 200, fr_DiscardedLines = pr_DiscardedLines parseResult\<rparr>)"
    using assms(1,2) by (rule Fetch_limited)
  have 2: "(fr_Error (Fetch http False source) = None) =
       (\<not> list_ex too_long (raw_lines (take MaxResponseSize (rd_data body))))"
    unfolding 1 by (simp add: ParseString_eq)
  have 3: "Fetch (\<lambda>s. Response 200 (NewReader (take MaxResponseSize (rd_data body)))) False source
      = Fetch http False source"
    unfolding 1
    by (simp add: Fetch_def Let_def StatusOK_def LimitReader_def ReadAll_def NewReader_def
        split: sum.splits)
  show ?thesis unfolding d using 1 2 3 by simp
qed

text \<open>
  C10 as stated fails: a body of 10 MiB and one byte without any newline is answered
  with status 200, and \<open>Fetch\<close> returns an error.
\<close>

theorem Fetch_fails_on_long_line_counterexample:
  "MaxResponseSize < length (rd_data (NewReader (replicate 10485761 (CHR ''a''))))
   \<and> fr_Error (Fetch (\<lambda>s. Response 200 (NewReader (replicate 10485761 (CHR ''a'')))) False
        (ex_source ''A''))
      = Some (Wrapped ''failed to parse keys'' ErrTooLong)"
proof -
  have l: "MaxResponseSize < length (rd_data (NewReader (replicate 10485761 (CHR ''a''))))"
    by (simp add: NewReader_def MaxResponseSize_def)
  have t: "take MaxResponseSize (rd_data (NewReader (replicate 10485761 (CHR ''a''))))
      = replicate 10485760 (CHR ''a'')"
    by (simp add: NewReader_def MaxResponseSize_def)
  have p: "ParseString (replicate 10485760 (CHR ''a'')) = Inl ErrTooLong"
    by (simp add: ParseString_eq raw_lines_replicate newline_def too_long_def
        MaxScanTokenSize_def)
  show ?thesis
    using l Fetch_limited [where http = "\<lambda>s. Response 200 (NewReader (replicate 10485761 (CHR ''a'')))"
        and source = "ex_source ''A''" and body = "NewReader (replicate 10485761 (CHR ''a''))", OF refl l]
    by (simp add: t p)
qed


lemma TrimSpace_Nil: "TrimSpace (dropCR []) = []"
  by code_simp

lemma spec_parse_blank_lines_then_key:
  assumes "newline \<notin> set l" and "l \<noteq> []" and "TrimSpace (dropCR l) = k"
    and "classify k = KeyLine"
  shows "spec_parse (replicate m newline @ l)
           = \<lparr>pr_Keys = [\<lparr>pk_Line = k, pk_LineNumber = Suc m\<rparr>], pr_DiscardedLines = 0\<rparr>"
proof -
  have n: "numbered_lines (replicate m newline @ l)
      = enumerate 1 (replicate m []) @ [(Suc m, k)]"
    using assms(3)
    by (simp add: numbered_lines_def raw_lines_newlines_then_line [OF assms(1,2)]
        TrimSpace_Nil enumerate_append_eq)
  have e: "classify [] = EmptyLine" by (simp add: classify_def)
  have f1: "filter (\<lambda>(n, t). classify t = KeyLine) (enumerate 1 (replicate m [])) = []"
    by (rule filter_enumerate_replicate) (simp add: e)
  have f2: "filter (\<lambda>(n, t). classify t = CommentLine \<or> classify t = MarkupLine
                                   \<or> classify t = MalformedLine) (enumerate 1 (replicate m [])) = []"
    by (rule filter_enumerate_replicate) (simp add: e)
  show ?thesis
    unfolding spec_parse_def n filter_append f1 f2 using assms(4) by simp
qed

text \<open>
  A body of 10485746 empty lines followed by a key: the limit cuts the key after
  fourteen bytes, and what is left of it is kept as a key.
\<close>

theorem Fetch_truncates_silently_witness:
  "Fetch (\<lambda>s. Response 200
             (NewReader (replicate 10485746 newline @ ''ssh-ed25519 AAAA alice@laptop'')))
      False (ex_source ''A'')
   = \<lparr>fr_Source = ex_source ''A'',
      fr_Keys = [\<lparr>pk_Line = ''ssh-ed25519 AA'', pk_LineNumber = 10485747\<rparr>],
      fr_Error = None, fr_StatusCode = 200, fr_DiscardedLines = 0\<rparr>"
proof -
  let ?body = "NewReader (replicate 10485746 newline @ ''ssh-ed25519 AAAA alice@laptop'')"
  have l: "MaxResponseSize < length (rd_data ?body)"
    by (simp add: NewReader_def MaxResponseSize_def)
  have t: "take MaxResponseSize (rd_data ?body) = replicate 10485746 newline @ ''ssh-ed25519 AA''"
    by (simp add: NewReader_def MaxResponseSize_def)
  have k: "TrimSpace (dropCR ''ssh-ed25519 AA'') = ''ssh-ed25519 AA''"
    "classify ''ssh-ed25519 AA'' = KeyLine"
    by code_simp+
  have nn: "newline \<notin> set ''ssh-ed25519 AA''" "''ssh-ed25519 AA'' \<noteq> []"
    by (simp_all add: newline_def)
  have short: "\<not> list_ex too_long (raw_lines (replicate 10485746 newline @ ''ssh-ed25519 AA''))"
    by (simp add: raw_lines_newlines_then_line [OF nn] list_ex_iff too_long_def
        MaxScanTokenSize_def)
  have p: "ParseString (replicate 10485746 newline @ ''ssh-ed25519 AA'')
      = Inr \<lparr>pr_Keys = [\<lparr>pk_Line = ''ssh-ed25519 AA'', pk_LineNumber = 10485747\<rparr>],
             pr_DiscardedLines = 0\<rparr>"
    using short by (simp add: ParseString_eq spec_parse_blank_lines_then_key [OF nn k])
  from Fetch_truncates_silently [where http = "\<lambda>s. Response 200 ?body"
      and source = "ex_source ''A''" and body = ?body and ?done = False, OF refl l]
  show ?thesis by (simp add: t p)
qed

section \<open>Deduplication and provenance\<close>

lemma first_only_set [simp]: "set (first_only ks) = set ks"
  by (induction ks rule: first_only.induct) auto

lemma first_only_distinct [simp]: "distinct (first_only ks)"
  by (induction ks rule: first_only.induct) auto






















section \<open>Cancellation\<close>

















end
